theory Spec2Isabelle
  imports Complex_Main "HOL-Library.Signed_Division"
begin

section \<open>Floating-point samples\<close>

text \<open>
  Every sample, accumulator and histogram cell of the program is a C++ \<^verbatim>\<open>float\<close>.
  The model keeps the three kinds of special value the code depends on (NaN and the two
  infinities: \<^verbatim>\<open>isnan\<close>, \<^verbatim>\<open>numeric_limits<float>::infinity()\<close>) and takes every
  finite value as a real number. Arithmetic on finite values is exact real arithmetic:
  rounding to 24 bits, overflow of a finite result to an infinity, subnormals and the
  sign of zero are not modelled (a zero divisor counts as \<open>+0\<close>).
\<close>

datatype cfloat = Fin real | PInf | NInf | NaN

definition isnan :: "cfloat \<Rightarrow> bool" where
  "isnan v = (v = NaN)"

fun fneg :: "cfloat \<Rightarrow> cfloat" where
  "fneg (Fin a) = Fin (- a)"
| "fneg PInf = NInf"
| "fneg NInf = PInf"
| "fneg NaN = NaN"

fun fadd :: "cfloat \<Rightarrow> cfloat \<Rightarrow> cfloat" where
  "fadd NaN b = NaN"
| "fadd a NaN = NaN"
| "fadd (Fin a) (Fin b) = Fin (a + b)"
| "fadd PInf NInf = NaN"
| "fadd NInf PInf = NaN"
| "fadd PInf b = PInf"
| "fadd a PInf = PInf"
| "fadd NInf b = NInf"
| "fadd a NInf = NInf"

definition fsub :: "cfloat \<Rightarrow> cfloat \<Rightarrow> cfloat" where
  "fsub a b = fadd a (fneg b)"

fun fmul :: "cfloat \<Rightarrow> cfloat \<Rightarrow> cfloat" where
  "fmul NaN b = NaN"
| "fmul a NaN = NaN"
| "fmul (Fin a) (Fin b) = Fin (a * b)"
| "fmul (Fin a) b = (if a = 0 then NaN else if 0 < a then b else fneg b)"
| "fmul a (Fin b) = (if b = 0 then NaN else if 0 < b then a else fneg a)"
| "fmul PInf b = b"
| "fmul NInf b = fneg b"

fun fdiv :: "cfloat \<Rightarrow> cfloat \<Rightarrow> cfloat" where
  "fdiv NaN b = NaN"
| "fdiv a NaN = NaN"
| "fdiv (Fin a) (Fin b) =
     (if b = 0 then (if a = 0 then NaN else if 0 < a then PInf else NInf)
      else Fin (a / b))"
| "fdiv (Fin a) b = Fin 0"
| "fdiv PInf (Fin b) = (if b < 0 then NInf else PInf)"
| "fdiv NInf (Fin b) = (if b < 0 then PInf else NInf)"
| "fdiv a b = NaN"

text \<open>The comparison \<^verbatim>\<open>a < b\<close>: false as soon as one side is NaN.\<close>

fun flt :: "cfloat \<Rightarrow> cfloat \<Rightarrow> bool" where
  "flt NaN b = False"
| "flt a NaN = False"
| "flt (Fin a) (Fin b) = (a < b)"
| "flt NInf NInf = False"
| "flt NInf b = True"
| "flt a NInf = False"
| "flt PInf b = False"
| "flt a PInf = True"

text \<open>The comparison \<^verbatim>\<open>a == b\<close>: NaN is equal to nothing.\<close>

definition feq :: "cfloat \<Rightarrow> cfloat \<Rightarrow> bool" where
  "feq a b = (a \<noteq> NaN \<and> a = b)"

text \<open>
  \<^verbatim>\<open>std::min(a, b)\<close> is \<^verbatim>\<open>(b < a) ? b : a\<close> and \<^verbatim>\<open>std::max(a, b)\<close> is
  \<^verbatim>\<open>(a < b) ? b : a\<close>: with a NaN on either side both return their first argument.
\<close>

definition std_min :: "cfloat \<Rightarrow> cfloat \<Rightarrow> cfloat" where
  "std_min a b = (if flt b a then b else a)"

definition std_max :: "cfloat \<Rightarrow> cfloat \<Rightarrow> cfloat" where
  "std_max a b = (if flt a b then b else a)"

fun fabs :: "cfloat \<Rightarrow> cfloat" where
  "fabs (Fin a) = Fin \<bar>a\<bar>"
| "fabs PInf = PInf"
| "fabs NInf = PInf"
| "fabs NaN = NaN"

fun flog :: "cfloat \<Rightarrow> cfloat" where
  "flog (Fin a) = (if a < 0 then NaN else if a = 0 then NInf else Fin (ln a))"
| "flog PInf = PInf"
| "flog NInf = NaN"
| "flog NaN = NaN"

definition flog2 :: "cfloat \<Rightarrow> cfloat" where
  "flog2 v = fdiv (flog v) (Fin (ln 2))"

fun fexp :: "cfloat \<Rightarrow> cfloat" where
  "fexp (Fin a) = Fin (exp a)"
| "fexp PInf = PInf"
| "fexp NInf = Fin 0"
| "fexp NaN = NaN"

fun fsqrt :: "cfloat \<Rightarrow> cfloat" where
  "fsqrt (Fin a) = (if a < 0 then NaN else Fin (sqrt a))"
| "fsqrt PInf = PInf"
| "fsqrt NInf = NaN"
| "fsqrt NaN = NaN"

text \<open>
  \<^verbatim>\<open>pow(x, y)\<close> with the special cases of the C library: \<open>pow(x, 0) = 1\<close> and
  \<open>pow(1, y) = 1\<close> even for a NaN on the other side, a negative base with a fractional
  exponent is NaN, a zero base gives 0 or an infinity.
\<close>

definition is_integral :: "real \<Rightarrow> bool" where
  "is_integral y = (y = of_int \<lfloor>y\<rfloor>)"

definition is_odd_integral :: "real \<Rightarrow> bool" where
  "is_odd_integral y = (is_integral y \<and> odd \<lfloor>y\<rfloor>)"

fun fpow :: "cfloat \<Rightarrow> cfloat \<Rightarrow> cfloat" where
  "fpow x (Fin y) =
     (if y = 0 then Fin 1
      else case x of
        NaN \<Rightarrow> NaN
      | Fin a \<Rightarrow>
          if a = 0 then (if 0 < y then Fin 0 else PInf)
          else if 0 < a then Fin (a powr y)
          else if is_integral y
            then Fin ((if odd \<lfloor>y\<rfloor> then - 1 else 1) * ((- a) powr y))
            else NaN
      | PInf \<Rightarrow> (if y < 0 then Fin 0 else PInf)
      | NInf \<Rightarrow> (if y < 0 then Fin 0 else if is_odd_integral y then NInf else PInf))"
| "fpow x PInf =
     (case x of
        NaN \<Rightarrow> NaN
      | Fin a \<Rightarrow> if \<bar>a\<bar> = 1 then Fin 1 else if \<bar>a\<bar> < 1 then Fin 0 else PInf
      | PInf \<Rightarrow> PInf
      | NInf \<Rightarrow> PInf)"
| "fpow x NInf =
     (case x of
        NaN \<Rightarrow> NaN
      | Fin a \<Rightarrow> if \<bar>a\<bar> = 1 then Fin 1 else if \<bar>a\<bar> < 1 then PInf else Fin 0
      | PInf \<Rightarrow> Fin 0
      | NInf \<Rightarrow> Fin 0)"
| "fpow x NaN = (if x = Fin 1 then Fin 1 else NaN)"

text \<open>
  The conversions between \<^verbatim>\<open>int\<close> and \<^verbatim>\<open>float\<close>. \<^verbatim>\<open>(int) v\<close> truncates towards
  zero; for a NaN, an infinity or a value outside the range of \<^verbatim>\<open>int\<close> the C++ standard
  leaves the result undefined. The model takes the value the conversion instruction
  delivers in that case as the parameter \<open>ub\<close> (\<open>- 2 ^ 31\<close> on x86), so that every
  statement below holds for whatever integer the platform produces.
\<close>

definition i2f :: "int \<Rightarrow> cfloat" where
  "i2f i = Fin (of_int i)"

definition f2i :: "int \<Rightarrow> cfloat \<Rightarrow> int" where
  "f2i ub v =
     (case v of
        Fin a \<Rightarrow>
          if - 2147483649 < a \<and> a < 2147483648
          then (if 0 \<le> a then \<lfloor>a\<rfloor> else \<lceil>a\<rceil>) else ub
      | PInf \<Rightarrow> ub | NInf \<Rightarrow> ub | NaN \<Rightarrow> ub)"

type_synonym Vector3f = "cfloat \<times> cfloat \<times> cfloat"

definition vx :: "Vector3f \<Rightarrow> cfloat" where "vx v = fst v"
definition vy :: "Vector3f \<Rightarrow> cfloat" where "vy v = fst (snd v)"
definition vz :: "Vector3f \<Rightarrow> cfloat" where "vz v = snd (snd v)"

text \<open>Eigen's \<^verbatim>\<open>mean()\<close>, \<^verbatim>\<open>norm()\<close>, \<^verbatim>\<open>cwiseMin\<close> and \<^verbatim>\<open>cwiseMax\<close> on a 3-vector.\<close>

definition vmean :: "Vector3f \<Rightarrow> cfloat" where
  "vmean v = fdiv (fadd (fadd (vx v) (vy v)) (vz v)) (Fin 3)"

definition vnorm :: "Vector3f \<Rightarrow> cfloat" where
  "vnorm v =
     fsqrt (fadd (fadd (fmul (vx v) (vx v)) (fmul (vy v) (vy v))) (fmul (vz v) (vz v)))"

definition cwiseMin :: "Vector3f \<Rightarrow> Vector3f \<Rightarrow> Vector3f" where
  "cwiseMin a b = (std_min (vx a) (vx b), std_min (vy a) (vy b), std_min (vz a) (vz b))"

definition cwiseMax :: "Vector3f \<Rightarrow> Vector3f \<Rightarrow> Vector3f" where
  "cwiseMax a b = (std_max (vx a) (vx b), std_max (vy a) (vy b), std_max (vz a) (vz b))"

definition vzero :: Vector3f where "vzero = (Fin 0, Fin 0, Fin 0)"
definition vones :: Vector3f where "vones = (Fin 1, Fin 1, Fin 1)"


section \<open>Pixel operators\<close>

datatype EMetric =
  Error | AbsoluteError | SquaredError | RelativeAbsoluteError | RelativeSquaredError
  | Division

datatype EPostProcessing = Identity | Square | Clip10 | Clip100 | Magnitude

datatype ETonemap =
  SRGB | Gamma | FalseColor | PositiveNegative | Complex_tm | Vector | FalseColorPPG

datatype error = RuntimeError string | OutOfRange | NullPointer

text \<open>
  Parts of the program that the functions below call and whose text is not among the
  sources at hand: \<^verbatim>\<open>toSRGB\<close> and the table \<^verbatim>\<open>colormap::turbo()\<close>. They are taken as
  parameters, together with the result of an undefined float-to-int conversion.
\<close>

record externals =
  toSRGB :: "cfloat \<Rightarrow> cfloat"
  turbo :: "cfloat list"
  undefined_cast :: int

text \<open>
  \<^verbatim>\<open>ImageCanvas::applyMetric\<close>. Every enumerator has its case; the \<^verbatim>\<open>default\<close> branch
  (a value that is no enumerator) has no counterpart in the datatype.
\<close>

fun applyMetric :: "cfloat \<Rightarrow> cfloat \<Rightarrow> EMetric \<Rightarrow> cfloat" where
  "applyMetric img reference Error = fsub img reference"
| "applyMetric img reference AbsoluteError = fabs (fsub img reference)"
| "applyMetric img reference SquaredError =
     fmul (fsub img reference) (fsub img reference)"
| "applyMetric img reference RelativeAbsoluteError =
     fdiv (fabs (fsub img reference)) (fadd reference (Fin 0.001))"
| "applyMetric img reference RelativeSquaredError =
     fdiv (fmul (fsub img reference) (fsub img reference))
          (fadd (fmul reference reference) (Fin 0.001))"
| "applyMetric img reference Division =
     fdiv (fadd img (Fin 0.001)) (fadd reference (Fin 0.001))"

text \<open>
  \<^verbatim>\<open>ImageCanvas::applyPostProcessing\<close>. \<^verbatim>\<open>EPostProcessing::Magnitude\<close> has no case in the
  switch and reaches \<^verbatim>\<open>default: throw runtime_error\<close>.
\<close>

fun applyPostProcessing :: "cfloat \<Rightarrow> EPostProcessing \<Rightarrow> error + cfloat" where
  "applyPostProcessing img Identity = Inr img"
| "applyPostProcessing img Square = Inr (fmul img img)"
| "applyPostProcessing img Clip10 = Inr (std_min img (Fin 10))"
| "applyPostProcessing img Clip100 = Inr (std_min img (Fin 100))"
| "applyPostProcessing img Magnitude =
     Inl (RuntimeError ''Invalid post processing selected.'')"

text \<open>
  Modelled from the spec: \<^verbatim>\<open>clamp\<close> of Common.h, which is not among the sources;
  the spec uses it as clamping a value into a closed interval.
\<close>

definition clampf :: "cfloat \<Rightarrow> cfloat \<Rightarrow> cfloat \<Rightarrow> cfloat" where
  "clampf v lo hi = std_max (std_min v hi) lo"

definition clampi :: "int \<Rightarrow> int \<Rightarrow> int \<Rightarrow> int" where
  "clampi v lo hi = max (min v hi) lo"

text \<open>
  A failing step (a throw, a read through a null pointer or out of range) ends the
  computation with its error; \<open>bind_err\<close> passes a result on to the next step.
\<close>

definition bind_err :: "error + 'a \<Rightarrow> ('a \<Rightarrow> error + 'b) \<Rightarrow> error + 'b" where
  "bind_err r f = (case r of Inl e \<Rightarrow> Inl e | Inr v \<Rightarrow> f v)"

fun sequence :: "(error + 'a) list \<Rightarrow> error + 'a list" where
  "sequence [] = Inr []"
| "sequence (r # rs) = bind_err r (\<lambda>v. bind_err (sequence rs) (\<lambda>vs. Inr (v # vs)))"

text \<open>A bounds-checked read of the colour table (\<^verbatim>\<open>fcd[k]\<close> in the source).\<close>

definition fcd_at :: "cfloat list \<Rightarrow> int \<Rightarrow> error + cfloat" where
  "fcd_at fcd k = (if 0 \<le> k \<and> k < int (length fcd) then Inr (fcd ! nat k) else Inl OutOfRange)"

definition fcd_vec :: "cfloat list \<Rightarrow> int \<Rightarrow> error + Vector3f" where
  "fcd_vec fcd start =
     bind_err (fcd_at fcd start) (\<lambda>a.
     bind_err (fcd_at fcd (start + 1)) (\<lambda>b.
     bind_err (fcd_at fcd (start + 2)) (\<lambda>c. Inr (a, b, c))))"

text \<open>The lambda \<^verbatim>\<open>falseColor\<close> of the case \<^verbatim>\<open>ETonemap::FalseColor\<close>.\<close>

definition falseColor :: "externals \<Rightarrow> cfloat \<Rightarrow> error + Vector3f" where
  "falseColor ext lin =
     (let fcd = turbo ext;
          fcCount = int (length fcd) sdiv 4;
          r = clampf (fmul lin (i2f fcCount)) (Fin 0) (i2f (fcCount - 1));
          ri = f2i (undefined_cast ext) r;
          start0 = 4 * ri;
          start1 = 4 * (if ri = fcCount - 1 then ri else ri + 1);
          alpha = fsub r (i2f ri)
      in bind_err (fcd_vec fcd start0) (\<lambda>v0.
         bind_err (fcd_vec fcd start1) (\<lambda>v1.
           Inr (fadd (fmul alpha (vx v1)) (fmul (fsub (Fin 1) alpha) (vx v0)),
                fadd (fmul alpha (vy v1)) (fmul (fsub (Fin 1) alpha) (vy v0)),
                fadd (fmul alpha (vz v1)) (fmul (fsub (Fin 1) alpha) (vz v0))))))"

text \<open>The lambda \<^verbatim>\<open>falseColor\<close> of the case \<^verbatim>\<open>ETonemap::FalseColorPPG\<close>.\<close>

definition falseColorPPG :: "cfloat \<Rightarrow> Vector3f" where
  "falseColorPPG v0 =
     (let v = clampf v0 (Fin 0) (Fin 1) in
      if flt v (Fin 0.25) then (Fin 0, fmul (Fin 4) v, Fin 1)
      else if flt v (Fin 0.5) then (Fin 0, Fin 1, fadd (Fin 1) (fmul (Fin 4) (fsub (Fin 0.25) v)))
      else if flt v (Fin 0.75) then (fmul (Fin 4) (fsub v (Fin 0.5)), Fin 1, Fin 0)
      else (Fin 1, fadd (Fin 1) (fmul (Fin 4) (fsub (Fin 0.75) v)), Fin 0))"

text \<open>The body of \<^verbatim>\<open>case ETonemap::FalseColorPPG\<close>, up to its \<^verbatim>\<open>break\<close>.\<close>

definition case_FalseColorPPG :: "Vector3f \<Rightarrow> Vector3f" where
  "case_FalseColorPPG v =
     (let grayScale = fpow (vx v) (fdiv (Fin 1) (Fin 2.2)) in falseColorPPG grayScale)"

text \<open>
  The \<^verbatim>\<open>switch\<close> of \<^verbatim>\<open>ImageCanvas::applyTonemap\<close>, giving \<^verbatim>\<open>result\<close>. In
  \<^verbatim>\<open>case ETonemap::Vector\<close> only the branch for a zero norm ends in \<^verbatim>\<open>break\<close>; after
  the assignment of the sRGB triple control runs on into \<^verbatim>\<open>case ETonemap::FalseColorPPG\<close>,
  which assigns \<^verbatim>\<open>result\<close> again.
\<close>

fun tonemap_switch :: "externals \<Rightarrow> Vector3f \<Rightarrow> cfloat \<Rightarrow> ETonemap \<Rightarrow> error + Vector3f" where
  "tonemap_switch ext v gamma SRGB =
     Inr (toSRGB ext (vx v), toSRGB ext (vy v), toSRGB ext (vz v))"
| "tonemap_switch ext v gamma Gamma =
     Inr (fpow (vx v) (fdiv (Fin 1) gamma), fpow (vy v) (fdiv (Fin 1) gamma),
          fpow (vz v) (fdiv (Fin 1) gamma))"
| "tonemap_switch ext v gamma FalseColor =
     falseColor ext (fadd (fdiv (flog2 (fadd (vmean v) (Fin 0.03125))) (Fin 10)) (Fin 0.5))"
| "tonemap_switch ext v gamma PositiveNegative =
     Inr (fmul (Fin (- 2)) (vmean (cwiseMin v vzero)), fmul (Fin 2) (vmean (cwiseMax v vzero)),
          Fin 0)"
| "tonemap_switch ext v gamma Complex_tm = Inr (Fin 0, Fin 0, Fin 0)"
| "tonemap_switch ext v gamma Vector =
     (if feq (vnorm v) (Fin 0) then Inr v
      else
        let tmpvalue = (fdiv (vx v) (vnorm v), fdiv (vy v) (vnorm v), fdiv (vz v) (vnorm v));
            result = (toSRGB ext (fmul (Fin 0.5) (fadd (Fin 1) (vx tmpvalue))),
                      toSRGB ext (fmul (Fin 0.5) (fadd (Fin 1) (vy tmpvalue))),
                      toSRGB ext (fmul (Fin 0.5) (fadd (Fin 1) (vz tmpvalue))))
        in Inr (case_FalseColorPPG v))"
| "tonemap_switch ext v gamma FalseColorPPG = Inr (case_FalseColorPPG v)"

definition applyTonemap :: "externals \<Rightarrow> Vector3f \<Rightarrow> cfloat \<Rightarrow> ETonemap \<Rightarrow> error + Vector3f" where
  "applyTonemap ext v gamma tonemap =
     bind_err (tonemap_switch ext v gamma tonemap)
       (\<lambda>result. Inr (cwiseMin (cwiseMax result vzero) vones))"

text \<open>What the Vector variant is described to return for a vector of nonzero norm.\<close>

definition vector_tonemap_spec :: "externals \<Rightarrow> Vector3f \<Rightarrow> Vector3f" where
  "vector_tonemap_spec ext v =
     (let n = vnorm v;
          r = (toSRGB ext (fmul (Fin 0.5) (fadd (Fin 1) (fdiv (vx v) n))),
               toSRGB ext (fmul (Fin 0.5) (fadd (Fin 1) (fdiv (vy v) n))),
               toSRGB ext (fmul (Fin 0.5) (fadd (Fin 1) (fdiv (vz v) n))))
      in cwiseMin (cwiseMax r vzero) vones)"


section \<open>Channels and images\<close>

text \<open>
  Modelled from the spec: the classes \<^verbatim>\<open>Channel\<close> and \<^verbatim>\<open>Image\<close>, whose headers are
  not among the sources. A channel is a named 2-D grid of float samples, addressable by flat
  index or by \<open>(x, y)\<close>; the flat index of \<open>(x, y)\<close> is \<open>x + y * width\<close>, as
  \<^verbatim>\<open>computeCanvasStatistics\<close> computes it. A read outside the grid gives 0 (missing
  reference data is treated as a zero reference value, never an error). An image has an
  opaque numeric id, a pixel size, its channels by name, and for each channel group the
  list of the names of its channels.
\<close>

record Channel =
  name :: string
  extent :: "int \<times> int"
  samples :: "cfloat list"

definition channel_count :: "Channel \<Rightarrow> int" where
  "channel_count c = int (length (samples c))"

definition eval_idx :: "Channel \<Rightarrow> int \<Rightarrow> cfloat" where
  "eval_idx c j = (if 0 \<le> j \<and> j < channel_count c then samples c ! nat j else Fin 0)"

definition eval_xy :: "Channel \<Rightarrow> int \<times> int \<Rightarrow> cfloat" where
  "eval_xy c p =
     (let x = fst p; y = snd p; w = fst (extent c); h = snd (extent c) in
      if x < 0 \<or> w \<le> x \<or> y < 0 \<or> h \<le> y then Fin 0 else eval_idx c (x + y * w))"

record Image =
  image_id :: int
  image_size :: "int \<times> int"
  channel :: "string \<Rightarrow> Channel option"
  channelsInGroup :: "string \<Rightarrow> string list"

definition image_count :: "Image \<Rightarrow> int" where
  "image_count img = fst (image_size img) * snd (image_size img)"

text \<open>
  Modelled from the spec: \<^verbatim>\<open>Channel::tail\<close> and \<^verbatim>\<open>toUpper\<close>. The tail of a channel
  name is its suffix after the group-prefix separator (a full stop), the whole name when
  there is none.
\<close>

definition tail :: "string \<Rightarrow> string" where
  "tail s = rev (takeWhile (\<lambda>c. c \<noteq> CHR ''.'') (rev s))"

definition toUpper_char :: "char \<Rightarrow> char" where
  "toUpper_char c =
     (case map_of (zip ''abcdefghijklmnopqrstuvwxyz'' ''ABCDEFGHIJKLMNOPQRSTUVWXYZ'') c of
        Some u \<Rightarrow> u | None \<Rightarrow> c)"

definition toUpper :: "string \<Rightarrow> string" where
  "toUpper s = map toUpper_char s"


section \<open>Channel compositor\<close>

text \<open>
  The two nested loops \<^verbatim>\<open>for y < size.y()\<close>, \<^verbatim>\<open>for x < size.x()\<close> that store
  \<open>f (x, y)\<close> at \<^verbatim>\<open>result[i].at({x, y})\<close> of a fresh channel of the given name and size:
  every cell of the grid is written once, in row-major order.
\<close>

definition fill_xy :: "string \<Rightarrow> int \<times> int \<Rightarrow> (int \<times> int \<Rightarrow> error + cfloat) \<Rightarrow> error + Channel" where
  "fill_xy nm sz f =
     bind_err
       (sequence (concat (map (\<lambda>y. map (\<lambda>x. f (int x, int y)) [0..<nat (fst sz)])
                              [0..<nat (snd sz)])))
       (\<lambda>d. Inr \<lparr>name = nm, extent = sz, samples = d\<rparr>)"

text \<open>
  The loop \<^verbatim>\<open>for j < chan->count()\<close> of the branch without a reference, storing at
  \<^verbatim>\<open>result[i].at(j)\<close>. The result channel has the size of the image; a source channel
  with more samples than that would be written past its end. Cells that the loop does not
  reach keep the content of the fresh channel, which the model takes as 0.
\<close>

definition fill_idx :: "string \<Rightarrow> int \<times> int \<Rightarrow> int \<Rightarrow> (int \<Rightarrow> error + cfloat) \<Rightarrow> error + Channel" where
  "fill_idx nm sz n f =
     (let total = nat (fst sz * snd sz) in
      if total < nat n then Inl OutOfRange
      else bind_err (sequence (map (\<lambda>j. f (int j)) [0..<nat n]))
             (\<lambda>d. Inr \<lparr>name = nm, extent = sz,
                         samples = d @ replicate (total - nat n) (Fin 0)\<rparr>))"

text \<open>The body of the lambda run for output channel \<open>i\<close> when there is no reference.\<close>

definition compose_plain :: "Image \<Rightarrow> EPostProcessing \<Rightarrow> string list \<Rightarrow> nat \<Rightarrow> error + Channel" where
  "compose_plain img postProcessing channelNames i =
     (case channel img (channelNames ! i) of
        None \<Rightarrow> Inl NullPointer
      | Some chan \<Rightarrow>
          fill_idx (toUpper (tail (channelNames ! i))) (image_size img) (channel_count chan)
            (\<lambda>j. applyPostProcessing (eval_idx chan j) postProcessing))"

text \<open>The body of the lambda run for output channel \<open>i\<close> when there is a reference.\<close>

definition compose_reference ::
  "Image \<Rightarrow> Image \<Rightarrow> string \<Rightarrow> EMetric \<Rightarrow> EPostProcessing \<Rightarrow> string list \<Rightarrow> bool \<Rightarrow> nat
   \<Rightarrow> error + Channel" where
  "compose_reference img reference requestedChannelGroup metric postProcessing channelNames
     onlyAlpha i =
     (let sz = image_size img;
          offset = ((fst (image_size reference) - fst sz) sdiv 2,
                    (snd (image_size reference) - snd sz) sdiv 2);
          referenceChannels = channelsInGroup reference requestedChannelGroup;
          nm = toUpper (tail (channelNames ! i))
      in case channel img (channelNames ! i) of
           None \<Rightarrow> Inl NullPointer
         | Some chan \<Rightarrow>
            (let isAlpha = (\<not> onlyAlpha \<and> nm = ''A'') in
             if i < length referenceChannels then
               (case channel reference (referenceChannels ! i) of
                  None \<Rightarrow> Inl NullPointer
                | Some referenceChan \<Rightarrow>
                    if isAlpha then
                      fill_xy nm sz (\<lambda>p. Inr (fmul (Fin 0.5)
                        (fadd (eval_xy chan p)
                              (eval_xy referenceChan (fst p + fst offset, snd p + snd offset)))))
                    else
                      fill_xy nm sz (\<lambda>p. applyPostProcessing
                        (applyMetric (eval_xy chan p)
                           (eval_xy referenceChan (fst p + fst offset, snd p + snd offset))
                           metric)
                        postProcessing))
             else if isAlpha then fill_xy nm sz (\<lambda>p. Inr (eval_xy chan p))
             else fill_xy nm sz (\<lambda>p. applyPostProcessing
                    (applyMetric (eval_xy chan p) (Fin 0) metric) postProcessing)))"

text \<open>
  \<^verbatim>\<open>ImageCanvas::channelsFromImages\<close>. The output channels are computed independently of
  each other (the source runs them on a thread pool); an exception in one of them ends the
  whole computation.
\<close>

definition channelsFromImages ::
  "Image option \<Rightarrow> Image option \<Rightarrow> string \<Rightarrow> EMetric \<Rightarrow> EPostProcessing
   \<Rightarrow> error + Channel list" where
  "channelsFromImages image_opt reference_opt requestedChannelGroup metric postProcessing =
     (case image_opt of
        None \<Rightarrow> Inr []
      | Some img \<Rightarrow>
         (let channelNames = channelsInGroup img requestedChannelGroup;
              onlyAlpha = list_all (\<lambda>n. toUpper (tail n) = ''A'') channelNames
          in case reference_opt of
               None \<Rightarrow>
                 sequence (map (compose_plain img postProcessing channelNames)
                             [0..<length channelNames])
             | Some reference \<Rightarrow>
                 sequence (map (compose_reference img reference requestedChannelGroup metric
                                  postProcessing channelNames onlyAlpha)
                             [0..<length channelNames])))"


section \<open>Flat pixel-buffer export\<close>

text \<open>
  Modelled from the spec: the class \<^verbatim>\<open>Lazy\<close> (Lazy.h is not among the sources), the
  handle to a possibly still-running statistics computation. The object holds the closure
  it was made from, that is the eight values the lambda in \<^verbatim>\<open>canvasStatistics\<close>
  captures. Objects made by \<^verbatim>\<open>make_shared\<close> live in \<open>lazy_heap\<close>; a shared
  pointer is the position of its object there. \<^verbatim>\<open>computeAsync\<close> schedules the
  computation on the thread pool given at construction: the model records the scheduled
  handles, in order, in \<open>mMeanValueThreadPool\<close>.
\<close>

record Lazy =
  l_image :: "Image option"
  l_reference :: "Image option"
  l_requestedChannelGroup :: string
  l_metric :: EMetric
  l_postProcessing :: EPostProcessing
  l_isCropped :: bool
  l_cropMin :: "int \<times> int"
  l_cropMax :: "int \<times> int"

text \<open>
  The members of \<^verbatim>\<open>ImageCanvas\<close> that the functions below read and write;
  \<open>mMeanValues\<close> is the \<^verbatim>\<open>std::map\<close> from key to shared pointer, kept as the
  list of its entries (\<^verbatim>\<open>find\<close> is \<open>map_of\<close>; the order of the entries plays no role).
\<close>

record Canvas =
  mImage :: "Image option"
  mReference :: "Image option"
  mRequestedChannelGroup :: string
  mMetric :: EMetric
  mPostProcessing :: EPostProcessing
  mIsCropped :: bool
  mCropMin :: "int \<times> int"
  mCropMax :: "int \<times> int"
  mMeanValues :: "(string \<times> nat) list"
  lazy_heap :: "Lazy list"
  mMeanValueThreadPool :: "nat list"

text \<open>
  The three loops of \<^verbatim>\<open>ImageCanvas::getHdrImageData\<close> on the buffer \<^verbatim>\<open>result\<close>:
  interleaving the first \<^verbatim>\<open>nChannelsToSave\<close> channels, setting the alpha slot, and
  dividing alpha out (\<open>divide_step i j\<close> is the body of the inner loop of the last).
  Every write of the source stays inside \<^verbatim>\<open>result\<close>, since the channels of a composite
  have as many samples as the image has pixels; a list update past the end, which the
  source never makes, would leave the list as it is.
\<close>

definition interleave :: "Channel list \<Rightarrow> nat \<Rightarrow> cfloat list \<Rightarrow> cfloat list" where
  "interleave channels nChannelsToSave result =
     fold (\<lambda>i r. fold (\<lambda>j r. r[j * 4 + i := samples (channels ! i) ! j])
                    [0..<length (samples (channels ! i))] r)
          [0..<nChannelsToSave] result"

definition set_alpha_one :: "nat \<Rightarrow> cfloat list \<Rightarrow> cfloat list" where
  "set_alpha_one numPixels result = fold (\<lambda>i r. r[i * 4 + 3 := Fin 1]) [0..<numPixels] result"

definition divide_step :: "nat \<Rightarrow> nat \<Rightarrow> cfloat list \<Rightarrow> cfloat list" where
  "divide_step i j r =
     (let alpha = r ! (j * 4 + 3) in
      if feq alpha (Fin 0) then r[j * 4 + i := Fin 0]
      else r[j * 4 + i := fdiv (r ! (j * 4 + i)) alpha])"

definition divide_alpha :: "nat \<Rightarrow> nat \<Rightarrow> cfloat list \<Rightarrow> cfloat list" where
  "divide_alpha nChannelsToSave numPixels result =
     fold (\<lambda>i. fold (divide_step i) [0..<numPixels]) [0..<min nChannelsToSave 3] result"

definition flatten :: "Channel list \<Rightarrow> nat \<Rightarrow> bool \<Rightarrow> cfloat list" where
  "flatten channels numPixels divideAlpha =
     (let nChannelsToSave = min (length channels) 4;
          r0 = replicate (4 * numPixels) (Fin 0);
          r1 = interleave channels nChannelsToSave r0;
          r2 = (if nChannelsToSave < 4 then set_alpha_one numPixels r1 else r1)
      in if divideAlpha then divide_alpha nChannelsToSave numPixels r2 else r2)"

definition getHdrImageData :: "Canvas \<Rightarrow> bool \<Rightarrow> error + cfloat list" where
  "getHdrImageData c divideAlpha =
     (case mImage c of
        None \<Rightarrow> Inr []
      | Some img \<Rightarrow>
          bind_err (channelsFromImages (mImage c) (mReference c) (mRequestedChannelGroup c)
                      (mMetric c) (mPostProcessing c))
            (\<lambda>channels.
               if channels = [] then Inr []
               else Inr (flatten channels (nat (image_count img)) divideAlpha)))"


section \<open>Statistics engine\<close>

record CanvasStatistics =
  mean :: cfloat
  maximum :: cfloat
  minimum :: cfloat
  histogram :: "cfloat list list"
  histogramZero :: int

text \<open>
  The search for the alpha channel at the start of \<^verbatim>\<open>computeCanvasStatistics\<close>.
  \<^verbatim>\<open>alphaChannel\<close> is a pointer to an element of the vector \<^verbatim>\<open>flattened\<close>, so the
  model keeps it as the position \<open>k\<close> of that element. \<^verbatim>\<open>swap(channel, flattened.back())\<close>
  exchanges the contents of the two elements and leaves the pointer where it was.
\<close>

definition find_alpha :: "Channel list \<Rightarrow> nat option" where
  "find_alpha flattened =
     (case filter (\<lambda>k. name (flattened ! k) = ''A'') [0..<length flattened] of
        [] \<Rightarrow> None | k # ks \<Rightarrow> Some k)"

definition locate_alpha :: "Channel list \<Rightarrow> Channel list \<times> nat option" where
  "locate_alpha flattened =
     (if \<not> list_all (\<lambda>c. name c = ''A'') flattened then
        (case find_alpha flattened of
           None \<Rightarrow> (flattened, None)
         | Some k \<Rightarrow>
             if k \<noteq> length flattened - 1
             then (flattened[k := last flattened, length flattened - 1 := flattened ! k], Some k)
             else (flattened, Some k))
      else (flattened, None))"

text \<open>The resolution of the crop rectangle: full extent, swap, clamp into the image.\<close>

definition resolve_crop ::
  "int \<times> int \<Rightarrow> bool \<Rightarrow> int \<times> int \<Rightarrow> int \<times> int \<Rightarrow> (int \<times> int) \<times> (int \<times> int)" where
  "resolve_crop sz isCropped cropMin0 cropMax0 =
     (let cropMin1 = (if \<not> isCropped then (0, 0) else cropMin0);
          cropMax1 = (if \<not> isCropped then sz else cropMax0);
          minx = (if fst cropMin1 > fst cropMax1 then fst cropMax1 else fst cropMin1);
          maxx = (if fst cropMin1 > fst cropMax1 then fst cropMin1 else fst cropMax1);
          miny = (if snd cropMin1 > snd cropMax1 then snd cropMax1 else snd cropMin1);
          maxy = (if snd cropMin1 > snd cropMax1 then snd cropMin1 else snd cropMax1)
      in ((max (min minx (fst sz)) 0, max (min miny (snd sz)) 0),
          (max (min maxx (fst sz)) 0, max (min maxy (snd sz)) 0)))"

text \<open>
  The flat indices \<open>j = x + y * stride\<close> that the loops over the crop rectangle visit,
  in the order of the loops (\<open>y\<close> outside, \<open>x\<close> inside).
\<close>

definition crop_indices :: "int \<Rightarrow> int \<times> int \<Rightarrow> int \<times> int \<Rightarrow> int list" where
  "crop_indices stride cropMin cropMax =
     concat (map (\<lambda>y. map (\<lambda>x. int x + int y * stride) [nat (fst cropMin)..<nat (fst cropMax)])
                 [nat (snd cropMin)..<nat (snd cropMax)])"

text \<open>
  The body of the innermost loop on the accumulators
  \<open>(mean', maximum', minimum', pixelCount)\<close> (the local variables \<^verbatim>\<open>mean\<close>,
  \<^verbatim>\<open>maximum\<close>, \<^verbatim>\<open>minimum\<close>), and the three loops around it.
\<close>

definition accumulate_sample ::
  "cfloat \<Rightarrow> cfloat \<times> cfloat \<times> cfloat \<times> int \<Rightarrow> cfloat \<times> cfloat \<times> cfloat \<times> int" where
  "accumulate_sample v acc =
     (case acc of (mean', maximum', minimum', pixelCount) \<Rightarrow>
        if \<not> isnan v
        then (fadd mean' v, std_max maximum' v, std_min minimum' v, pixelCount + 1)
        else acc)"

definition accumulate ::
  "Channel list \<Rightarrow> nat \<Rightarrow> int list \<Rightarrow> cfloat \<times> cfloat \<times> cfloat \<times> int" where
  "accumulate flattened nChannels js =
     fold (\<lambda>i acc. fold (\<lambda>j acc. accumulate_sample (eval_idx (flattened ! i) j) acc) js acc)
          [0..<nChannels] (Fin 0, NInf, PInf, 0)"

text \<open>The histogram domain: \<^verbatim>\<open>addition\<close>, \<^verbatim>\<open>smallest\<close> and the four lambdas.\<close>

definition NUM_BINS :: int where "NUM_BINS = 400"

definition addition :: cfloat where "addition = Fin 0.001"

definition smallest :: cfloat where "smallest = flog addition"

definition symmetricLog :: "cfloat \<Rightarrow> cfloat" where
  "symmetricLog val =
     (if flt (Fin 0) val then fsub (flog (fadd val addition)) smallest
      else fneg (fsub (flog (fadd (fneg val) addition)) smallest))"

definition symmetricLogInverse :: "cfloat \<Rightarrow> cfloat" where
  "symmetricLogInverse val =
     (if flt (Fin 0) val then fsub (fexp (fadd val smallest)) addition
      else fneg (fsub (fexp (fadd (fneg val) smallest)) addition))"

definition valToBin :: "int \<Rightarrow> cfloat \<Rightarrow> cfloat \<Rightarrow> cfloat \<Rightarrow> int" where
  "valToBin ub minLog diffLog val =
     clampi (f2i ub (fdiv (fmul (i2f NUM_BINS) (fsub (symmetricLog val) minLog)) diffLog))
            0 (NUM_BINS - 1)"

definition binToVal :: "cfloat \<Rightarrow> cfloat \<Rightarrow> cfloat \<Rightarrow> cfloat" where
  "binToVal minLog diffLog val =
     symmetricLogInverse (fadd (fdiv (fmul diffLog val) (i2f NUM_BINS)) minLog)"

text \<open>
  The histogram is kept by columns: \<open>h ! i ! b\<close> is \<^verbatim>\<open>histogram(b, i)\<close>, bin \<open>b\<close> of data
  channel \<open>i\<close>. First the matrix \<^verbatim>\<open>indices\<close> is filled for every pixel of the image and
  every data channel; then, for each channel, the loop over \<open>j < numElements\<close> adds the
  weight of pixel \<open>j\<close> to the bin \<^verbatim>\<open>indices(j, i)\<close>.
\<close>

definition bin_indices :: "int \<Rightarrow> cfloat \<Rightarrow> cfloat \<Rightarrow> Channel \<Rightarrow> nat \<Rightarrow> nat list" where
  "bin_indices ub minLog diffLog chan numElements =
     map (\<lambda>j. nat (valToBin ub minLog diffLog (eval_idx chan (int j)))) [0..<numElements]"

definition pixel_weight :: "Channel list \<Rightarrow> nat option \<Rightarrow> nat \<Rightarrow> cfloat" where
  "pixel_weight flattened alphaChannel j =
     (case alphaChannel of Some k \<Rightarrow> eval_idx (flattened ! k) (int j) | None \<Rightarrow> Fin 1)"

definition add_to_bins :: "nat list \<Rightarrow> (nat \<Rightarrow> cfloat) \<Rightarrow> cfloat list \<Rightarrow> cfloat list" where
  "add_to_bins idx weight column =
     fold (\<lambda>j col. col[idx ! j := fadd (col ! (idx ! j)) (weight j)]) [0..<length idx] column"

definition histogram_counts ::
  "int \<Rightarrow> Channel list \<Rightarrow> nat option \<Rightarrow> nat \<Rightarrow> nat \<Rightarrow> cfloat \<Rightarrow> cfloat \<Rightarrow> cfloat list list" where
  "histogram_counts ub flattened alphaChannel nChannels numElements minLog diffLog =
     map (\<lambda>i. add_to_bins (bin_indices ub minLog diffLog (flattened ! i) numElements)
                 (pixel_weight flattened alphaChannel)
                 (replicate (nat NUM_BINS) (Fin 0)))
         [0..<nChannels]"

text \<open>Division of every row \<open>b\<close> by the width \<^verbatim>\<open>binToVal(b + 1) - binToVal(b)\<close>.\<close>

definition to_density :: "cfloat \<Rightarrow> cfloat \<Rightarrow> cfloat list list \<Rightarrow> cfloat list list" where
  "to_density minLog diffLog h =
     map (\<lambda>col. map (\<lambda>b. fdiv (col ! b)
                        (fsub (binToVal minLog diffLog (i2f (int b + 1)))
                              (binToVal minLog diffLog (i2f (int b)))))
                  [0..<length col]) h"

text \<open>
  \<^verbatim>\<open>nth_element\<close> leaves at position \<open>idx\<close> the element that a sort would put there.
  With a NaN among the entries the comparison is no ordering and the standard promises
  nothing; the model then still returns the entry an insertion sort by \<^verbatim>\<open><\<close> leaves there.
\<close>

fun insort_f :: "cfloat \<Rightarrow> cfloat list \<Rightarrow> cfloat list" where
  "insort_f v [] = [v]"
| "insort_f v (x # xs) = (if flt x v then x # insort_f v xs else v # x # xs)"

definition nth_element :: "cfloat list \<Rightarrow> nat \<Rightarrow> cfloat" where
  "nth_element temp idx = foldr insort_f temp [] ! idx"

definition normalize :: "cfloat list list \<Rightarrow> cfloat list list" where
  "normalize h =
     (let temp = concat h;
          idx = length temp - 10;
          d = fmul (std_max (nth_element temp idx) (Fin 0.1)) (Fin 1.3)
      in map (map (\<lambda>v. fdiv v d)) h)"

text \<open>
  The first part of \<^verbatim>\<open>computeCanvasStatistics\<close> on an already composed channel list
  \<open>flattened0\<close>: the number of data channels \<^verbatim>\<open>nChannels\<close>, the flat indices of the
  resolved crop rectangle, and the accumulators after the loops.
\<close>

definition nChannels_of :: "Channel list \<Rightarrow> nat" where
  "nChannels_of flattened0 =
     (let flattened = fst (locate_alpha flattened0);
          alphaChannel = snd (locate_alpha flattened0)
      in if alphaChannel \<noteq> None then length flattened - 1 else length flattened)"

definition crop_of :: "Image \<Rightarrow> bool \<Rightarrow> int \<times> int \<Rightarrow> int \<times> int \<Rightarrow> int list" where
  "crop_of img isCropped cropMin0 cropMax0 =
     (let crop = resolve_crop (image_size img) isCropped cropMin0 cropMax0;
          stride = fst (image_size img)
      in crop_indices stride (fst crop) (snd crop))"

definition accumulators ::
  "Image \<Rightarrow> Channel list \<Rightarrow> bool \<Rightarrow> int \<times> int \<Rightarrow> int \<times> int
   \<Rightarrow> cfloat \<times> cfloat \<times> cfloat \<times> int" where
  "accumulators img flattened0 isCropped cropMin0 cropMax0 =
     accumulate (fst (locate_alpha flattened0)) (nChannels_of flattened0)
       (crop_of img isCropped cropMin0 cropMax0)"

text \<open>
  The histogram after the accumulation loop, before the division by the bin widths and
  the normalization.
\<close>

definition raw_histogram ::
  "int \<Rightarrow> Image \<Rightarrow> Channel list \<Rightarrow> bool \<Rightarrow> int \<times> int \<Rightarrow> int \<times> int \<Rightarrow> cfloat list list" where
  "raw_histogram ub img flattened0 isCropped cropMin0 cropMax0 =
     (let acc = accumulators img flattened0 isCropped cropMin0 cropMax0;
          maximum' = fst (snd acc);
          minimum' = fst (snd (snd acc));
          minLog = symmetricLog minimum';
          diffLog = fsub (symmetricLog maximum') minLog
      in histogram_counts ub (fst (locate_alpha flattened0)) (snd (locate_alpha flattened0))
           (nChannels_of flattened0) (nat (image_count img)) minLog diffLog)"

text \<open>
  The statistics of an already composed channel list: everything in
  \<^verbatim>\<open>computeCanvasStatistics\<close> after the call of \<^verbatim>\<open>channelsFromImages\<close>.
\<close>

definition statistics_of ::
  "int \<Rightarrow> Image \<Rightarrow> Channel list \<Rightarrow> bool \<Rightarrow> int \<times> int \<Rightarrow> int \<times> int \<Rightarrow> CanvasStatistics" where
  "statistics_of ub img flattened0 isCropped cropMin0 cropMax0 =
     (let nChannels = nChannels_of flattened0;
          acc = accumulators img flattened0 isCropped cropMin0 cropMax0;
          mean' = fst acc;
          maximum' = fst (snd acc);
          minimum' = fst (snd (snd acc));
          pixelCount = snd (snd (snd acc));
          minLog = symmetricLog minimum';
          diffLog = fsub (symmetricLog maximum') minLog
      in \<lparr>mean = (if nChannels > 0 then fdiv mean' (i2f pixelCount) else Fin 0),
          maximum = maximum',
          minimum = minimum',
          histogram =
            (if nChannels = 0 then []
             else normalize (to_density minLog diffLog
                    (raw_histogram ub img flattened0 isCropped cropMin0 cropMax0))),
          histogramZero = valToBin ub minLog diffLog (Fin 0)\<rparr>)"

definition computeCanvasStatistics ::
  "int \<Rightarrow> Image option \<Rightarrow> Image option \<Rightarrow> string \<Rightarrow> EMetric \<Rightarrow> EPostProcessing \<Rightarrow> bool
   \<Rightarrow> int \<times> int \<Rightarrow> int \<times> int \<Rightarrow> error + CanvasStatistics" where
  "computeCanvasStatistics ub image_opt reference_opt requestedChannelGroup metric postProcessing
     isCropped cropMin cropMax =
     bind_err (channelsFromImages image_opt reference_opt requestedChannelGroup metric
                 postProcessing)
       (\<lambda>flattened.
          case image_opt of
            None \<Rightarrow> Inl NullPointer
          | Some img \<Rightarrow> Inr (statistics_of ub img flattened isCropped cropMin cropMax))"

text \<open>
  The sum of one column of the histogram over all bins, the samples that the accumulation
  loops read (in the order of the loops), and the sum of the weights of the first \<open>n\<close>
  pixels.
\<close>

definition column_total :: "cfloat list \<Rightarrow> cfloat" where
  "column_total col = foldr fadd col (Fin 0)"

definition visited_samples :: "Channel list \<Rightarrow> nat \<Rightarrow> int list \<Rightarrow> cfloat list" where
  "visited_samples flattened nChannels js =
     concat (map (\<lambda>i. map (eval_idx (flattened ! i)) js) [0..<nChannels])"

definition total_weight :: "(nat \<Rightarrow> cfloat) \<Rightarrow> nat \<Rightarrow> cfloat" where
  "total_weight weight n = fold (\<lambda>j s. fadd s (weight j)) [0..<n] (Fin 0)"


section \<open>Result cache\<close>

text \<open>
  Modelled from the spec: \<^verbatim>\<open>join\<close> of Common.h (the comma-joined channel names) and
  the numeric values of the enumerators of \<^verbatim>\<open>EMetric\<close> and \<^verbatim>\<open>EPostProcessing\<close>, whose
  declarations are not among the sources: the variants are numbered from 0 in the order
  in which the spec and the \<^verbatim>\<open>switch\<close> statements list them. \<^verbatim>\<open>%d\<close> and
  \<^verbatim>\<open>std::to_string\<close> print an \<^verbatim>\<open>int\<close> in decimal.
\<close>

fun join :: "string list \<Rightarrow> string \<Rightarrow> string" where
  "join [] delim = []"
| "join [x] delim = x"
| "join (x # y # ys) delim = x @ delim @ join (y # ys) delim"

fun metric_id :: "EMetric \<Rightarrow> int" where
  "metric_id Error = 0"
| "metric_id AbsoluteError = 1"
| "metric_id SquaredError = 2"
| "metric_id RelativeAbsoluteError = 3"
| "metric_id RelativeSquaredError = 4"
| "metric_id Division = 5"

fun postProcessing_id :: "EPostProcessing \<Rightarrow> int" where
  "postProcessing_id Identity = 0"
| "postProcessing_id Square = 1"
| "postProcessing_id Clip10 = 2"
| "postProcessing_id Clip100 = 3"
| "postProcessing_id Magnitude = 4"

definition digit_char :: "nat \<Rightarrow> char" where
  "digit_char d = ''0123456789'' ! d"

fun digits :: "nat \<Rightarrow> string" where
  "digits n = (if n < 10 then [digit_char n] else digits (n div 10) @ [digit_char (n mod 10)])"

declare digits.simps [simp del]

definition to_string :: "int \<Rightarrow> string" where
  "to_string i = (if i < 0 then CHR ''-'' # digits (nat (- i)) else digits (nat i))"

text \<open>The key that \<^verbatim>\<open>ImageCanvas::canvasStatistics\<close> builds for the image \<open>img\<close>.\<close>

definition statistics_key :: "Canvas \<Rightarrow> Image \<Rightarrow> string" where
  "statistics_key c img =
     (let channels = join (channelsInGroup img (mRequestedChannelGroup c)) '','';
          key =
            (case mReference c of
               Some reference \<Rightarrow>
                 to_string (image_id img) @ ''-'' @ channels @ ''-''
                 @ to_string (image_id reference) @ ''-'' @ to_string (metric_id (mMetric c))
                 @ ''-'' @ to_string (postProcessing_id (mPostProcessing c))
             | None \<Rightarrow>
                 to_string (image_id img) @ ''-'' @ channels @ ''-''
                 @ to_string (postProcessing_id (mPostProcessing c)))
      in if mIsCropped c
         then key @ ''-crop'' @ ''-'' @ to_string (fst (mCropMin c))
                  @ ''-'' @ to_string (snd (mCropMin c))
                  @ ''-'' @ to_string (fst (mCropMax c))
                  @ ''-'' @ to_string (snd (mCropMax c))
         else key)"

text \<open>
  \<^verbatim>\<open>ImageCanvas::canvasStatistics\<close>: the returned shared pointer (\<open>None\<close> for
  \<^verbatim>\<open>nullptr\<close>) and the canvas afterwards. \<^verbatim>\<open>std::map::insert\<close> leaves the map as
  it is when the key is present; \<^verbatim>\<open>mMeanValues.at(key)\<close> throws when the key is missing.
\<close>

definition map_insert :: "(string \<times> nat) list \<Rightarrow> string \<Rightarrow> nat \<Rightarrow> (string \<times> nat) list" where
  "map_insert m k v = (if map_of m k = None then m @ [(k, v)] else m)"

definition canvasStatistics :: "Canvas \<Rightarrow> error + (nat option \<times> Canvas)" where
  "canvasStatistics c =
     (case mImage c of
        None \<Rightarrow> Inr (None, c)
      | Some img \<Rightarrow>
         (let key = statistics_key c img in
          case map_of (mMeanValues c) key of
            Some h \<Rightarrow> Inr (Some h, c)
          | None \<Rightarrow>
             (let lazy = \<lparr>l_image = mImage c, l_reference = mReference c,
                          l_requestedChannelGroup = mRequestedChannelGroup c,
                          l_metric = mMetric c, l_postProcessing = mPostProcessing c,
                          l_isCropped = mIsCropped c, l_cropMin = mCropMin c,
                          l_cropMax = mCropMax c\<rparr>;
                  c1 = c\<lparr>lazy_heap := lazy_heap c @ [lazy],
                         mMeanValues := map_insert (mMeanValues c) key (length (lazy_heap c))\<rparr>
              in case map_of (mMeanValues c1) key of
                   None \<Rightarrow> Inl OutOfRange
                 | Some val \<Rightarrow>
                     Inr (Some val,
                          c1\<lparr>mMeanValueThreadPool := mMeanValueThreadPool c1 @ [val]\<rparr>))))"

text \<open>The value that the computation behind a handle delivers: the closure, run.\<close>

definition lazy_value :: "int \<Rightarrow> Lazy \<Rightarrow> error + CanvasStatistics" where
  "lazy_value ub l =
     computeCanvasStatistics ub (l_image l) (l_reference l) (l_requestedChannelGroup l)
       (l_metric l) (l_postProcessing l) (l_isCropped l) (l_cropMin l) (l_cropMax l)"

text \<open>How often the computation behind handle \<open>h\<close> has been scheduled.\<close>

definition times_scheduled :: "Canvas \<Rightarrow> nat \<Rightarrow> nat" where
  "times_scheduled c h = length (filter (\<lambda>v. v = h) (mMeanValueThreadPool c))"


text \<open>
  The invariant of the cache members: every handle in the map and in the pool's record
  points into \<open>lazy_heap\<close>, and the computation behind every handle in the map has been
  scheduled exactly once. It holds for a canvas with an empty cache, and
  \<^verbatim>\<open>canvasStatistics\<close>, the only function that writes these members, keeps it.
\<close>

definition cache_ok :: "Canvas \<Rightarrow> bool" where
  "cache_ok c =
     (list_all (\<lambda>e. snd e < length (lazy_heap c) \<and> times_scheduled c (snd e) = 1)
        (mMeanValues c)
      \<and> list_all (\<lambda>v. v < length (lazy_heap c)) (mMeanValueThreadPool c))"


section \<open>Example inputs\<close>

text \<open>
  The 2 x 2 single-channel image with the samples 1, 2, 3, NaN; a canvas showing it with
  metric Error, no reference, post-processing Identity, no crop and an empty cache; the
  same canvas with the image as its own reference; and the canvas after one request for
  statistics.
\<close>

definition gray_channel :: Channel where
  "gray_channel = \<lparr>name = ''R'', extent = (2, 2), samples = [Fin 1, Fin 2, Fin 3, NaN]\<rparr>"

definition gray_image :: Image where
  "gray_image =
     \<lparr>image_id = 1, image_size = (2, 2),
      channel = (\<lambda>n. if n = ''R'' then Some gray_channel else None),
      channelsInGroup = (\<lambda>g. [''R''])\<rparr>"

definition gray_canvas :: Canvas where
  "gray_canvas =
     \<lparr>mImage = Some gray_image, mReference = None, mRequestedChannelGroup = [],
      mMetric = Error, mPostProcessing = Identity, mIsCropped = False,
      mCropMin = (0, 0), mCropMax = (0, 0),
      mMeanValues = [], lazy_heap = [], mMeanValueThreadPool = []\<rparr>"

definition self_canvas :: Canvas where
  "self_canvas = gray_canvas\<lparr>mReference := Some gray_image\<rparr>"

definition gray_lazy :: Lazy where
  "gray_lazy =
     \<lparr>l_image = Some gray_image, l_reference = None, l_requestedChannelGroup = [],
      l_metric = Error, l_postProcessing = Identity, l_isCropped = False,
      l_cropMin = (0, 0), l_cropMax = (0, 0)\<rparr>"

definition cached_canvas :: Canvas where
  "cached_canvas =
     gray_canvas\<lparr>mMeanValues := [(''1-R-0'', 0)], lazy_heap := [gray_lazy],
                 mMeanValueThreadPool := [0]\<rparr>"


text \<open>
  A 1 x 1 image with a colour and an alpha channel, a 3 x 3 reference with the same two
  channels (its alpha sample at the centre is 0.5), and a 1 x 1 reference that has only
  the colour channel.
\<close>

definition alpha_image :: Image where
  "alpha_image =
     \<lparr>image_id = 2, image_size = (1, 1),
      channel = (\<lambda>n. if n = ''R'' then Some \<lparr>name = ''R'', extent = (1, 1), samples = [Fin 3]\<rparr>
                     else if n = ''A'' then Some \<lparr>name = ''A'', extent = (1, 1), samples = [Fin 1]\<rparr>
                     else None),
      channelsInGroup = (\<lambda>g. [''R'', ''A''])\<rparr>"

definition alpha_reference :: Image where
  "alpha_reference =
     \<lparr>image_id = 3, image_size = (3, 3),
      channel = (\<lambda>n. if n = ''R''
                       then Some \<lparr>name = ''R'', extent = (3, 3), samples = replicate 9 (Fin 0)\<rparr>
                     else if n = ''A''
                       then Some \<lparr>name = ''A'', extent = (3, 3),
                                  samples = [Fin 0, Fin 0, Fin 0, Fin 0, Fin 0.5, Fin 0, Fin 0,
                                             Fin 0, Fin 0]\<rparr>
                     else None),
      channelsInGroup = (\<lambda>g. [''R'', ''A''])\<rparr>"

definition short_reference :: Image where
  "short_reference =
     \<lparr>image_id = 4, image_size = (1, 1),
      channel = (\<lambda>n. if n = ''R'' then Some \<lparr>name = ''R'', extent = (1, 1), samples = [Fin 2]\<rparr>
                     else None),
      channelsInGroup = (\<lambda>g. [''R''])\<rparr>"


text \<open>
  A 1 x 1 image whose channel group is empty, and a 1 x 1 image with five channels, none
  of them named \<open>A\<close>; the canvases showing them.
\<close>

definition blank_image :: Image where
  "blank_image =
     \<lparr>image_id = 5, image_size = (1, 1), channel = (\<lambda>n. None), channelsInGroup = (\<lambda>g. [])\<rparr>"

definition five_image :: Image where
  "five_image =
     \<lparr>image_id = 6, image_size = (1, 1),
      channel = (\<lambda>n. if n = ''R'' then Some \<lparr>name = ''R'', extent = (1, 1), samples = [Fin 1]\<rparr>
                     else if n = ''G'' then Some \<lparr>name = ''G'', extent = (1, 1), samples = [Fin 2]\<rparr>
                     else if n = ''B'' then Some \<lparr>name = ''B'', extent = (1, 1), samples = [Fin 3]\<rparr>
                     else if n = ''Z'' then Some \<lparr>name = ''Z'', extent = (1, 1), samples = [Fin 4]\<rparr>
                     else if n = ''W'' then Some \<lparr>name = ''W'', extent = (1, 1), samples = [Fin 5]\<rparr>
                     else None),
      channelsInGroup = (\<lambda>g. [''R'', ''G'', ''B'', ''Z'', ''W''])\<rparr>"

definition blank_canvas :: Canvas where
  "blank_canvas = gray_canvas\<lparr>mImage := Some blank_image\<rparr>"

definition five_canvas :: Canvas where
  "five_canvas = gray_canvas\<lparr>mImage := Some five_image\<rparr>"

definition five_composite :: "Channel list" where
  "five_composite =
     [\<lparr>name = ''R'', extent = (1, 1), samples = [Fin 1]\<rparr>,
      \<lparr>name = ''G'', extent = (1, 1), samples = [Fin 2]\<rparr>,
      \<lparr>name = ''B'', extent = (1, 1), samples = [Fin 3]\<rparr>,
      \<lparr>name = ''Z'', extent = (1, 1), samples = [Fin 4]\<rparr>,
      \<lparr>name = ''W'', extent = (1, 1), samples = [Fin 5]\<rparr>]"


text \<open>A 3 x 1 single-channel image with the samples 1, 2, 5.\<close>

definition wide_channel :: Channel where
  "wide_channel = \<lparr>name = ''R'', extent = (3, 1), samples = [Fin 1, Fin 2, Fin 5]\<rparr>"

definition wide_image :: Image where
  "wide_image =
     \<lparr>image_id = 7, image_size = (3, 1),
      channel = (\<lambda>n. if n = ''R'' then Some wide_channel else None),
      channelsInGroup = (\<lambda>g. [''R''])\<rparr>"


section \<open>Properties\<close>

subsection \<open>Tonemap\<close>

lemma vnorm_unit_z: "vnorm (Fin 0, Fin 0, Fin 1) = Fin 1"
  by (simp add: vnorm_def vx_def vy_def vz_def)

lemma applyTonemap_Vector_runs_into_PPG:
  "\<not> feq (vnorm v) (Fin 0) \<Longrightarrow>
   applyTonemap ext v gamma Vector = applyTonemap ext v gamma FalseColorPPG"
  by (simp add: applyTonemap_def Let_def)

text \<open>
  C3 (code defect). The Vector variant is described as mapping each axis \<open>a\<close> of the
  normalized vector to \<open>sRGB((1 + a) / 2)\<close>. Because \<^verbatim>\<open>case ETonemap::Vector\<close> has no
  \<^verbatim>\<open>break\<close> on that path, the code returns what the FalseColorPPG variant returns. At
  the unit vector \<open>(0, 0, 1)\<close>, for every gamma and every \<^verbatim>\<open>toSRGB\<close>, the code returns
  \<open>(0, 0, 1)\<close>, while the first component of the described result is the clamped
  \<open>sRGB(0.5)\<close>.
\<close>

theorem applyTonemap_Vector_unit_z:
  "applyTonemap ext (Fin 0, Fin 0, Fin 1) gamma Vector = Inr (Fin 0, Fin 0, Fin 1)
   \<and> vx (vector_tonemap_spec ext (Fin 0, Fin 0, Fin 1))
       = std_min (std_max (toSRGB ext (Fin 0.5)) (Fin 0)) (Fin 1)"
  by (simp add: applyTonemap_def vnorm_unit_z feq_def case_FalseColorPPG_def
      falseColorPPG_def clampf_def std_min_def std_max_def cwiseMin_def cwiseMax_def
      vzero_def vones_def vx_def vy_def vz_def vector_tonemap_spec_def bind_err_def Let_def)


subsection \<open>Request fingerprint\<close>

lemma to_string_metric_id:
  "to_string (metric_id m) = [''0123456789'' ! nat (metric_id m)]"
  by (cases m) (simp_all add: to_string_def digits.simps digit_char_def)

lemma metric_digit_inj:
  "m1 \<noteq> m2 \<Longrightarrow> ''0123456789'' ! nat (metric_id m1) \<noteq> ''0123456789'' ! nat (metric_id m2)"
  by (cases m1; cases m2) simp_all

text \<open>
  C2 (as amended). The key is built from the primary image id, the comma-joined channel
  names, the post-processing id and, only if cropping is enabled, the four crop corner
  values; the reference image id and the metric id are part of it only when a reference
  is set. So with a reference set, two requests that differ only in the metric have
  different keys; without a reference they have the same key.
\<close>

theorem statistics_key_metric:
  "(mReference c = Some r \<and> m1 \<noteq> m2 \<longrightarrow>
      statistics_key (c\<lparr>mMetric := m1\<rparr>) img \<noteq> statistics_key (c\<lparr>mMetric := m2\<rparr>) img)
   \<and> (mReference c' = None \<longrightarrow>
      statistics_key (c'\<lparr>mMetric := m1\<rparr>) img = statistics_key (c'\<lparr>mMetric := m2\<rparr>) img)"
  by (auto simp add: statistics_key_def to_string_metric_id Let_def dest: metric_digit_inj)

theorem statistics_key_metric_witness:
  "mReference self_canvas = Some gray_image \<and> Error \<noteq> AbsoluteError
   \<and> statistics_key (self_canvas\<lparr>mMetric := Error\<rparr>) gray_image
       \<noteq> statistics_key (self_canvas\<lparr>mMetric := AbsoluteError\<rparr>) gray_image
   \<and> mReference gray_canvas = None
   \<and> statistics_key (gray_canvas\<lparr>mMetric := Error\<rparr>) gray_image
       = statistics_key (gray_canvas\<lparr>mMetric := AbsoluteError\<rparr>) gray_image"
  using statistics_key_metric [where c = self_canvas and r = gray_image and ?m1.0 = Error
      and ?m2.0 = AbsoluteError and c' = gray_canvas and img = gray_image]
  by (simp add: self_canvas_def gray_canvas_def)

text \<open>
  C2 as stated fails without a reference: the requests for the example image with metric
  Error and with metric AbsoluteError have the same key.
\<close>

theorem statistics_key_same_without_reference:
  "statistics_key (gray_canvas\<lparr>mMetric := Error\<rparr>) gray_image = ''1-R-0''
   \<and> statistics_key (gray_canvas\<lparr>mMetric := AbsoluteError\<rparr>) gray_image = ''1-R-0''"
  by (simp add: statistics_key_def gray_canvas_def gray_image_def to_string_def digits.simps
      digit_char_def)

subsection \<open>Result cache\<close>

lemma cache_ok_empty:
  "mMeanValues c = [] \<Longrightarrow> mMeanValueThreadPool c = [] \<Longrightarrow> cache_ok c"
  by (simp add: cache_ok_def)

lemma not_scheduled_yet:
  "list_all (\<lambda>v. v < n) pool \<Longrightarrow> filter (\<lambda>v. v = (n::nat)) pool = []"
  by (induction pool) auto

lemma canvasStatistics_hit:
  "mImage c = Some img \<Longrightarrow> map_of (mMeanValues c) (statistics_key c img) = Some h \<Longrightarrow>
   canvasStatistics c = Inr (Some h, c)"
  by (simp add: canvasStatistics_def Let_def)

lemma canvasStatistics_miss:
  assumes "mImage c = Some img" "map_of (mMeanValues c) (statistics_key c img) = None"
  shows "canvasStatistics c =
     Inr (Some (length (lazy_heap c)),
          c\<lparr>lazy_heap := lazy_heap c @
               [\<lparr>l_image = mImage c, l_reference = mReference c,
                 l_requestedChannelGroup = mRequestedChannelGroup c,
                 l_metric = mMetric c, l_postProcessing = mPostProcessing c,
                 l_isCropped = mIsCropped c, l_cropMin = mCropMin c,
                 l_cropMax = mCropMax c\<rparr>],
             mMeanValues := mMeanValues c @ [(statistics_key c img, length (lazy_heap c))],
             mMeanValueThreadPool := mMeanValueThreadPool c @ [length (lazy_heap c)]\<rparr>)"
  using assms by (simp add: canvasStatistics_def Let_def map_insert_def map_add_def)

lemma cache_ok_preserved:
  assumes "cache_ok c" "canvasStatistics c = Inr (r, c1)"
  shows "cache_ok c1"
proof (cases "mImage c")
  case None
  with assms show ?thesis by (simp add: canvasStatistics_def)
next
  case (Some img)
  show ?thesis
  proof (cases "map_of (mMeanValues c) (statistics_key c img)")
    case (Some h)
    with assms \<open>mImage c = Some img\<close> show ?thesis by (simp add: canvasStatistics_hit)
  next
    case None
    have fresh: "filter (\<lambda>v. v = length (lazy_heap c)) (mMeanValueThreadPool c) = []"
      using assms(1) by (simp add: cache_ok_def not_scheduled_yet)
    have old: "list_all (\<lambda>e. snd e < length (lazy_heap c) \<and> times_scheduled c (snd e) = 1)
        (mMeanValues c)"
      using assms(1) by (simp add: cache_ok_def)
    have pool: "list_all (\<lambda>v. v < length (lazy_heap c)) (mMeanValueThreadPool c)"
      using assms(1) by (simp add: cache_ok_def)
    from None assms(2) \<open>mImage c = Some img\<close>
    have c1: "c1 = c\<lparr>lazy_heap := lazy_heap c @
               [\<lparr>l_image = mImage c, l_reference = mReference c,
                 l_requestedChannelGroup = mRequestedChannelGroup c,
                 l_metric = mMetric c, l_postProcessing = mPostProcessing c,
                 l_isCropped = mIsCropped c, l_cropMin = mCropMin c,
                 l_cropMax = mCropMax c\<rparr>],
             mMeanValues := mMeanValues c @ [(statistics_key c img, length (lazy_heap c))],
             mMeanValueThreadPool := mMeanValueThreadPool c @ [length (lazy_heap c)]\<rparr>"
      by (simp add: canvasStatistics_miss)
    show ?thesis
      unfolding c1 cache_ok_def times_scheduled_def
      using old pool fresh
      by (auto simp add: list_all_iff times_scheduled_def)
  qed
qed

lemma cached_canvas_ok: "cache_ok cached_canvas"
  by (simp add: cache_ok_def cached_canvas_def gray_canvas_def times_scheduled_def)

lemma cached_canvas_key: "statistics_key cached_canvas gray_image = ''1-R-0''"
  by (simp add: statistics_key_def cached_canvas_def gray_canvas_def gray_image_def
      to_string_def digits.simps digit_char_def)

text \<open>
  C5. On a canvas with an image whose cache satisfies the invariant, a request for
  statistics returns a handle \<open>h\<close>, and the same request made again on the resulting
  canvas returns the same handle and leaves the canvas as it is, so nothing is scheduled
  again: the computation behind \<open>h\<close> has been scheduled exactly once. If the key has an
  entry already, the first request itself returns that entry's handle and changes nothing.
  The lookup does not depend on whether the computation has finished.
\<close>

theorem canvasStatistics_memoizing:
  assumes "cache_ok c" "mImage c = Some img"
  shows "\<exists>h c1. canvasStatistics c = Inr (Some h, c1)
           \<and> canvasStatistics c1 = Inr (Some h, c1)
           \<and> times_scheduled c1 h = 1
           \<and> (\<forall>h'. map_of (mMeanValues c) (statistics_key c img) = Some h'
                  \<longrightarrow> h = h' \<and> c1 = c)"
proof (cases "map_of (mMeanValues c) (statistics_key c img)")
  case (Some h)
  have "(statistics_key c img, h) \<in> set (mMeanValues c)" using Some by (rule map_of_SomeD)
  with assms(1) have "times_scheduled c h = 1" by (auto simp add: cache_ok_def list_all_iff)
  with Some assms(2) show ?thesis by (simp add: canvasStatistics_hit)
next
  case None
  let ?h = "length (lazy_heap c)"
  let ?c1 = "c\<lparr>lazy_heap := lazy_heap c @
               [\<lparr>l_image = mImage c, l_reference = mReference c,
                 l_requestedChannelGroup = mRequestedChannelGroup c,
                 l_metric = mMetric c, l_postProcessing = mPostProcessing c,
                 l_isCropped = mIsCropped c, l_cropMin = mCropMin c,
                 l_cropMax = mCropMax c\<rparr>],
             mMeanValues := mMeanValues c @ [(statistics_key c img, ?h)],
             mMeanValueThreadPool := mMeanValueThreadPool c @ [?h]\<rparr>"
  have first: "canvasStatistics c = Inr (Some ?h, ?c1)"
    using None assms(2) by (simp add: canvasStatistics_miss)
  have key: "statistics_key ?c1 img = statistics_key c img"
    by (simp add: statistics_key_def Let_def split: option.split)
  have "map_of (mMeanValues ?c1) (statistics_key ?c1 img) = Some ?h"
    unfolding key using None by (simp add: map_add_def)
  then have second: "canvasStatistics ?c1 = Inr (Some ?h, ?c1)"
    using assms(2) by (intro canvasStatistics_hit) simp_all
  have fresh: "filter (\<lambda>v. v = ?h) (mMeanValueThreadPool c) = []"
    using assms(1) by (simp add: cache_ok_def not_scheduled_yet)
  have once: "times_scheduled ?c1 ?h = 1"
    using fresh by (simp add: times_scheduled_def)
  show ?thesis using first second once None by auto
qed

theorem canvasStatistics_memoizing_witness:
  "cache_ok cached_canvas \<and> mImage cached_canvas = Some gray_image
   \<and> map_of (mMeanValues cached_canvas) (statistics_key cached_canvas gray_image) = Some 0
   \<and> canvasStatistics cached_canvas = Inr (Some 0, cached_canvas)
   \<and> times_scheduled cached_canvas 0 = 1"
proof -
  have img: "mImage cached_canvas = Some gray_image"
    by (simp add: cached_canvas_def gray_canvas_def)
  have hit: "map_of (mMeanValues cached_canvas) (statistics_key cached_canvas gray_image) = Some 0"
    unfolding cached_canvas_key by (simp add: cached_canvas_def)
  from canvasStatistics_memoizing [OF cached_canvas_ok img] hit
  show ?thesis using cached_canvas_ok img by auto
qed


subsection \<open>Channel compositor\<close>

lemma sequence_Inr:
  "sequence rs = Inr vs \<Longrightarrow> length vs = length rs \<and> (\<forall>k<length rs. rs ! k = Inr (vs ! k))"
proof (induction rs arbitrary: vs)
  case Nil
  then show ?case by simp
next
  case (Cons r rs)
  from Cons.prems obtain v vs' where r: "r = Inr v" and s: "sequence rs = Inr vs'" and vs: "vs = v # vs'"
    by (auto simp add: bind_err_def split: sum.splits)
  from Cons.IH [OF s] show ?case using r vs by (auto simp add: nth_Cons split: nat.splits)
qed

lemma concat_rows_length:
  "length (concat (map (\<lambda>y. map (\<lambda>x. f x y) [0..<w]) [0..<h])) = h * w"
  by (induction h) simp_all

lemma concat_rows_nth:
  "x < w \<Longrightarrow> y < h \<Longrightarrow>
   concat (map (\<lambda>y. map (\<lambda>x. f x y) [0..<w]) [0..<h]) ! (x + y * w) = f x y"
proof (induction h)
  case 0
  then show ?case by simp
next
  case (Suc h)
  show ?case
  proof (cases "y < h")
    case True
    then have "x + y * w < h * w"
      using Suc.prems(1)
      by (metis add.commute mult_Suc less_le_trans add_less_cancel_left mult_le_mono1 Suc_leI)
    with Suc True show ?thesis by (simp add: nth_append concat_rows_length)
  next
    case False
    with Suc.prems have "y = h" by simp
    with Suc.prems show ?thesis by (simp add: nth_append concat_rows_length)
  qed
qed

lemma fill_xy_Inr:
  assumes "fill_xy nm sz f = Inr ch"
  shows "name ch = nm" "extent ch = sz"
    "0 \<le> x \<Longrightarrow> x < fst sz \<Longrightarrow> 0 \<le> y \<Longrightarrow> y < snd sz \<Longrightarrow> f (x, y) = Inr (eval_xy ch (x, y))"
proof -
  let ?rs = "concat (map (\<lambda>y. map (\<lambda>x. f (int x, int y)) [0..<nat (fst sz)]) [0..<nat (snd sz)])"
  from assms obtain d where d: "sequence ?rs = Inr d"
    and ch: "ch = \<lparr>name = nm, extent = sz, samples = d\<rparr>"
    by (auto simp add: fill_xy_def bind_err_def split: sum.splits)
  from ch show "name ch = nm" "extent ch = sz" by simp_all
  assume b: "0 \<le> x" "x < fst sz" "0 \<le> y" "y < snd sz"
  from sequence_Inr [OF d] have len: "length d = nat (snd sz) * nat (fst sz)"
    and nth: "\<And>k. k < length ?rs \<Longrightarrow> ?rs ! k = Inr (d ! k)"
    by (simp_all add: concat_rows_length)
  have kx: "nat x < nat (fst sz)" and ky: "nat y < nat (snd sz)" using b by simp_all
  have k: "nat x + nat y * nat (fst sz) < nat (snd sz) * nat (fst sz)"
    using kx ky
    by (metis add.commute mult_Suc less_le_trans add_less_cancel_left mult_le_mono1 Suc_leI)
  have idx: "nat (x + y * fst sz) = nat x + nat y * nat (fst sz)"
    using b by (simp add: nat_add_distrib nat_mult_distrib)
  have lt: "x + y * fst sz < int (length d)"
    using k idx len b by (metis nat_less_iff add_nonneg_nonneg mult_nonneg_nonneg less_imp_le order_trans)
  have "f (x, y) = ?rs ! (nat x + nat y * nat (fst sz))"
    using concat_rows_nth [OF kx ky, of "\<lambda>x y. f (int x, int y)"] b by simp
  also have "\<dots> = Inr (d ! (nat x + nat y * nat (fst sz)))"
    using nth k by (simp add: concat_rows_length)
  finally show "f (x, y) = Inr (eval_xy ch (x, y))"
    using b ch idx lt by (simp add: eval_xy_def eval_idx_def channel_count_def Let_def)
qed

lemma channelsFromImages_reference:
  assumes "channelsFromImages (Some img) (Some reference) g m pp = Inr chans"
  shows "length chans = length (channelsInGroup img g)"
    and "i < length chans \<Longrightarrow>
         compose_reference img reference g m pp (channelsInGroup img g)
           (list_all (\<lambda>n. toUpper (tail n) = ''A'') (channelsInGroup img g)) i = Inr (chans ! i)"
proof -
  let ?names = "channelsInGroup img g"
  let ?rs = "map (compose_reference img reference g m pp ?names
                   (list_all (\<lambda>n. toUpper (tail n) = ''A'') ?names)) [0..<length ?names]"
  from assms have s: "sequence ?rs = Inr chans"
    by (simp add: channelsFromImages_def Let_def)
  from sequence_Inr [OF s] show len: "length chans = length ?names" by simp
  assume i: "i < length chans"
  from sequence_Inr [OF s] have "\<forall>k<length ?rs. ?rs ! k = Inr (chans ! k)" by blast
  then have "?rs ! i = Inr (chans ! i)" using i len by simp
  then show
    "compose_reference img reference g m pp ?names
       (list_all (\<lambda>n. toUpper (tail n) = ''A'') ?names) i = Inr (chans ! i)"
    using i len by simp
qed

lemma compose_reference_name:
  assumes "compose_reference img reference g m pp names onlyAlpha i = Inr ch"
  shows "name ch = toUpper (tail (names ! i))"
proof -
  from assms obtain f where "fill_xy (toUpper (tail (names ! i))) (image_size img) f = Inr ch"
    unfolding compose_reference_def Let_def
    by (cases "channel img (names ! i)"; cases "channel reference (channelsInGroup reference g ! i)")
       (simp_all split: if_splits)
  then show ?thesis by (rule fill_xy_Inr(1))
qed

lemma composite_onlyAlpha:
  assumes "channelsFromImages (Some img) (Some reference) g m pp = Inr chans"
  shows "list_all (\<lambda>n. toUpper (tail n) = ''A'') (channelsInGroup img g)
         = list_all (\<lambda>c. name c = ''A'') chans"
proof -
  have len: "length chans = length (channelsInGroup img g)"
    using assms by (rule channelsFromImages_reference(1))
  have nm: "\<And>i. i < length chans \<Longrightarrow> name (chans ! i) = toUpper (tail (channelsInGroup img g ! i))"
    using channelsFromImages_reference(2) [OF assms] compose_reference_name by blast
  show ?thesis using len nm
    by (simp add: list_all_length)
qed

lemma fsub_self: "fsub (Fin a) (Fin a) = Fin 0"
  by (simp add: fsub_def)


lemma gray_self_composite:
  "channelsFromImages (Some gray_image) (Some gray_image) [] Error Identity
   = Inr [\<lparr>name = ''R'', extent = (2, 2), samples = [Fin 0, Fin 0, Fin 0, NaN]\<rparr>]"
  by code_simp

lemma alpha_composite:
  "channelsFromImages (Some alpha_image) (Some alpha_reference) [] Error Identity
   = Inr [\<lparr>name = ''R'', extent = (1, 1), samples = [Fin 3]\<rparr>,
          \<lparr>name = ''A'', extent = (1, 1), samples = [Fin 0.75]\<rparr>]"
  by code_simp

lemma short_composite:
  "channelsFromImages (Some alpha_image) (Some short_reference) [] Error Identity
   = Inr [\<lparr>name = ''R'', extent = (1, 1), samples = [Fin 1]\<rparr>,
          \<lparr>name = ''A'', extent = (1, 1), samples = [Fin 1]\<rparr>]"
  by code_simp

text \<open>
  C7 (as amended). With the same image as primary and reference and metric Error, every
  sample of a non-alpha output channel at a pixel whose source sample is finite equals
  \<open>PostProcessing(0)\<close>, for every post-processing variant for which the composite is
  produced.
\<close>

theorem self_error_is_postprocessed_zero:
  assumes "channelsFromImages (Some img) (Some img) g Error pp = Inr chans"
    and "i < length chans" and "name (chans ! i) \<noteq> ''A''"
    and "channel img (channelsInGroup img g ! i) = Some chan"
    and "0 \<le> x" "x < fst (image_size img)" "0 \<le> y" "y < snd (image_size img)"
    and "eval_xy chan (x, y) = Fin a"
  shows "applyPostProcessing (Fin 0) pp = Inr (eval_xy (chans ! i) (x, y))"
proof -
  let ?names = "channelsInGroup img g"
  let ?oa = "list_all (\<lambda>n. toUpper (tail n) = ''A'') ?names"
  have c: "compose_reference img img g Error pp ?names ?oa i = Inr (chans ! i)"
    using assms(1,2) by (rule channelsFromImages_reference(2))
  have i: "i < length ?names"
    using assms(2) channelsFromImages_reference(1) [OF assms(1)] by simp
  have nm: "toUpper (tail (?names ! i)) \<noteq> ''A''"
    using compose_reference_name [OF c] assms(3) by simp
  have "fill_xy (toUpper (tail (?names ! i))) (image_size img)
          (\<lambda>p. applyPostProcessing (applyMetric (eval_xy chan p) (eval_xy chan (fst p + 0, snd p + 0)) Error) pp)
        = Inr (chans ! i)"
    using c i nm assms(4) by (simp add: compose_reference_def Let_def)
  from fill_xy_Inr(3) [OF this assms(5-8)]
  show ?thesis using assms(9) by (simp add: fsub_self)
qed


theorem self_error_is_postprocessed_zero_witness:
  "channelsFromImages (Some gray_image) (Some gray_image) [] Error Identity
     = Inr [\<lparr>name = ''R'', extent = (2, 2), samples = [Fin 0, Fin 0, Fin 0, NaN]\<rparr>]
   \<and> eval_xy gray_channel (0, 0) = Fin 1
   \<and> applyPostProcessing (Fin 0) Identity
       = Inr (eval_xy \<lparr>name = ''R'', extent = (2, 2), samples = [Fin 0, Fin 0, Fin 0, NaN]\<rparr>
                (0, 0))"
proof -
  let ?c = "\<lparr>name = ''R'', extent = (2, 2), samples = [Fin 0, Fin 0, Fin 0, NaN]\<rparr>"
  have i: "(0::nat) < length [?c]" and nm: "name ([?c] ! 0) \<noteq> ''A''" by simp_all
  have ch: "channel gray_image (channelsInGroup gray_image [] ! 0) = Some gray_channel"
    by (simp add: gray_image_def)
  have b: "(0::int) \<le> 0" "0 < fst (image_size gray_image)" "0 < snd (image_size gray_image)"
    by (simp_all add: gray_image_def)
  have v: "eval_xy gray_channel (0, 0) = Fin 1"
    by (simp add: eval_xy_def eval_idx_def channel_count_def gray_channel_def)
  from self_error_is_postprocessed_zero [OF gray_self_composite i nm ch b(1) b(2) b(1) b(3) v]
  show ?thesis using gray_self_composite v by simp
qed

text \<open>
  C7 as stated fails at a NaN sample: the difference of NaN with itself is NaN, so the
  composite of the example image with itself has NaN at pixel \<open>(1, 1)\<close>, while
  \<open>PostProcessing(0)\<close> is 0.
\<close>

theorem self_error_of_NaN_is_NaN:
  "channelsFromImages (Some gray_image) (Some gray_image) [] Error Identity
     = Inr [\<lparr>name = ''R'', extent = (2, 2), samples = [Fin 0, Fin 0, Fin 0, NaN]\<rparr>]
   \<and> eval_xy \<lparr>name = ''R'', extent = (2, 2), samples = [Fin 0, Fin 0, Fin 0, NaN]\<rparr> (1, 1) = NaN
   \<and> applyPostProcessing (Fin 0) Identity = Inr (Fin 0)"
  by (simp add: gray_self_composite eval_xy_def eval_idx_def channel_count_def)

text \<open>
  C8 (as amended). With a reference present, for an output channel named \<open>A\<close> of a
  composite that is not entirely alpha: if the reference has a channel at the same
  position of its channel list, every sample is
  \<open>0.5 * (primary.sample(pixel) + reference.sample(pixel + offset))\<close> with
  \<open>offset = (referenceSize - primarySize) / 2\<close> (integer division truncating towards
  zero); if the reference has no channel at that position, every sample is the primary's
  sample. In both cases the channel does not depend on the metric or the post-processing:
  any other metric \<open>m'\<close> and post-processing \<open>pp'\<close> give the same channel.
\<close>

theorem alpha_is_averaged:
  assumes "channelsFromImages (Some img) (Some reference) g m pp = Inr chans"
    and "i < length chans" and "name (chans ! i) = ''A''"
    and "\<not> list_all (\<lambda>c. name c = ''A'') chans"
    and "channel img (channelsInGroup img g ! i) = Some chan"
    and "0 \<le> x" "x < fst (image_size img)" "0 \<le> y" "y < snd (image_size img)"
  shows "(i < length (channelsInGroup reference g) \<longrightarrow>
          (\<exists>referenceChan. channel reference (channelsInGroup reference g ! i) = Some referenceChan
            \<and> eval_xy (chans ! i) (x, y) =
                fmul (Fin 0.5) (fadd (eval_xy chan (x, y))
                  (eval_xy referenceChan
                     (x + (fst (image_size reference) - fst (image_size img)) sdiv 2,
                      y + (snd (image_size reference) - snd (image_size img)) sdiv 2)))))
      \<and> (\<not> i < length (channelsInGroup reference g) \<longrightarrow>
            eval_xy (chans ! i) (x, y) = eval_xy chan (x, y))
      \<and> compose_reference img reference g m' pp' (channelsInGroup img g) False i
          = Inr (chans ! i)"
proof -
  let ?names = "channelsInGroup img g"
  let ?oa = "list_all (\<lambda>n. toUpper (tail n) = ''A'') ?names"
  have oa: "\<not> ?oa" using composite_onlyAlpha [OF assms(1)] assms(4) by simp
  have c: "compose_reference img reference g m pp ?names False i = Inr (chans ! i)"
    using channelsFromImages_reference(2) [OF assms(1,2)] oa by simp
  have nm: "toUpper (tail (?names ! i)) = ''A''"
    using compose_reference_name [OF c] assms(3) by simp
  have indep: "compose_reference img reference g m' pp' ?names False i
      = compose_reference img reference g m pp ?names False i"
    using nm by (simp add: compose_reference_def Let_def split: option.splits)
  show ?thesis
  proof (cases "i < length (channelsInGroup reference g)")
    case True
    from c True nm assms(5) obtain referenceChan where
      r: "channel reference (channelsInGroup reference g ! i) = Some referenceChan"
      by (auto simp add: compose_reference_def Let_def split: option.splits)
    have "fill_xy ''A'' (image_size img)
            (\<lambda>p. Inr (fmul (Fin 0.5) (fadd (eval_xy chan p)
               (eval_xy referenceChan
                  (fst p + (fst (image_size reference) - fst (image_size img)) sdiv 2,
                   snd p + (snd (image_size reference) - snd (image_size img)) sdiv 2)))))
          = Inr (chans ! i)"
      using c True nm assms(5) r by (simp add: compose_reference_def Let_def)
    from fill_xy_Inr(3) [OF this assms(6-9)] r True indep c show ?thesis by simp
  next
    case False
    have "fill_xy ''A'' (image_size img) (\<lambda>p. Inr (eval_xy chan p)) = Inr (chans ! i)"
      using c False nm assms(5) by (simp add: compose_reference_def Let_def)
    from fill_xy_Inr(3) [OF this assms(6-9)] False indep c show ?thesis by simp
  qed
qed

theorem alpha_is_averaged_witness:
  "eval_xy \<lparr>name = ''A'', extent = (1, 1), samples = [Fin 0.75]\<rparr> (0, 0)
     = fmul (Fin 0.5) (fadd (Fin 1) (Fin 0.5))
   \<and> eval_xy \<lparr>name = ''A'', extent = (1, 1), samples = [Fin 1]\<rparr> (0, 0) = Fin 1
   \<and> compose_reference alpha_image alpha_reference [] Division Square
         (channelsInGroup alpha_image []) False 1
       = Inr \<lparr>name = ''A'', extent = (1, 1), samples = [Fin 0.75]\<rparr>"
proof -
  let ?r = "\<lparr>name = ''R'', extent = (1, 1), samples = [Fin 3]\<rparr>"
  let ?a = "\<lparr>name = ''A'', extent = (1, 1), samples = [Fin 0.75]\<rparr>"
  let ?r' = "\<lparr>name = ''R'', extent = (1, 1), samples = [Fin 1]\<rparr>"
  let ?a' = "\<lparr>name = ''A'', extent = (1, 1), samples = [Fin 1]\<rparr>"
  let ?pa = "\<lparr>name = ''A'', extent = (1, 1), samples = [Fin 1]\<rparr>"
  have i: "(1::nat) < length [?r, ?a]" "name ([?r, ?a] ! 1) = ''A''"
    "\<not> list_all (\<lambda>c. name c = ''A'') [?r, ?a]" by simp_all
  have i': "(1::nat) < length [?r', ?a']" "name ([?r', ?a'] ! 1) = ''A''"
    "\<not> list_all (\<lambda>c. name c = ''A'') [?r', ?a']" by simp_all
  have ch: "channel alpha_image (channelsInGroup alpha_image [] ! 1) = Some ?pa"
    by (simp add: alpha_image_def)
  have b: "(0::int) \<le> 0" "0 < fst (image_size alpha_image)" "0 < snd (image_size alpha_image)"
    by (simp_all add: alpha_image_def)
  have has: "1 < length (channelsInGroup alpha_reference [])"
    and hasnt: "\<not> 1 < length (channelsInGroup short_reference [])"
    by (simp_all add: alpha_reference_def short_reference_def)
  have rc: "channel alpha_reference (channelsInGroup alpha_reference [] ! 1)
      = Some \<lparr>name = ''A'', extent = (3, 3),
               samples = [Fin 0, Fin 0, Fin 0, Fin 0, Fin 0.5, Fin 0, Fin 0, Fin 0, Fin 0]\<rparr>"
    by (simp add: alpha_reference_def)
  have pv: "eval_xy ?pa (0, 0) = Fin 1"
    by (simp add: eval_xy_def eval_idx_def channel_count_def)
  have rv: "eval_xy \<lparr>name = ''A'', extent = (3, 3),
               samples = [Fin 0, Fin 0, Fin 0, Fin 0, Fin 0.5, Fin 0, Fin 0, Fin 0, Fin 0]\<rparr>
             (0 + (fst (image_size alpha_reference) - fst (image_size alpha_image)) sdiv 2,
              0 + (snd (image_size alpha_reference) - snd (image_size alpha_image)) sdiv 2)
            = Fin 0.5"
    by (simp add: eval_xy_def eval_idx_def channel_count_def alpha_reference_def alpha_image_def
        signed_divide_int_def)
  from alpha_is_averaged [OF alpha_composite i ch b(1) b(2) b(1) b(3),
      where m' = Division and pp' = Square] has rc pv rv
  have first: "eval_xy ?a (0, 0) = fmul (Fin 0.5) (fadd (Fin 1) (Fin 0.5))"
    and third: "compose_reference alpha_image alpha_reference [] Division Square
         (channelsInGroup alpha_image []) False 1 = Inr ?a"
    by simp_all
  from alpha_is_averaged [OF short_composite i' ch b(1) b(2) b(1) b(3)] hasnt pv
  have second: "eval_xy ?a' (0, 0) = Fin 1" by simp
  from first second third show ?thesis by simp
qed

text \<open>
  C8 as stated fails when the reference has no channel at the position of the alpha
  channel: against the reference that has only a colour channel (sample 2), the alpha
  sample of the composite is the primary's alpha sample 1, which is neither
  \<open>0.5 * (1 + 0)\<close> nor \<open>0.5 * (1 + 2)\<close>.
\<close>

theorem alpha_not_averaged_without_reference_channel:
  "channelsFromImages (Some alpha_image) (Some short_reference) [] Error Identity
     = Inr [\<lparr>name = ''R'', extent = (1, 1), samples = [Fin 1]\<rparr>,
            \<lparr>name = ''A'', extent = (1, 1), samples = [Fin 1]\<rparr>]
   \<and> eval_xy \<lparr>name = ''A'', extent = (1, 1), samples = [Fin 1]\<rparr> (0, 0) = Fin 1
   \<and> fmul (Fin 0.5) (fadd (Fin 1) (Fin 0)) = Fin 0.5
   \<and> fmul (Fin 0.5) (fadd (Fin 1) (Fin 2)) = Fin 1.5"
  by (simp add: short_composite eval_xy_def eval_idx_def channel_count_def)


subsection \<open>Flat pixel-buffer export\<close>

lemma slot_index: "i < 4 \<Longrightarrow> (j * 4 + i = k) = (k mod 4 = i \<and> k div 4 = j)" for i j k :: nat
  by auto

lemma store_loop_length:
  "length (fold (\<lambda>j r. r[j * 4 + i := d j]) [0..<m] r) = length r"
  by (induction m) simp_all

lemma store_loop_nth:
  "i < 4 \<Longrightarrow> k < length r \<Longrightarrow>
   fold (\<lambda>j r. r[j * 4 + i := d j]) [0..<m] r ! k
   = (if k mod 4 = i \<and> k div 4 < m then d (k div 4) else r ! k)"
proof (induction m)
  case 0
  then show ?case by simp
next
  case (Suc m)
  then show ?case
    by (auto simp add: nth_list_update store_loop_length slot_index less_Suc_eq)
qed

lemma interleave_length: "length (interleave channels n r) = length r"
  unfolding interleave_def by (induction n) (simp_all add: store_loop_length)

lemma interleave_nth:
  "n \<le> 4 \<Longrightarrow> k < length r \<Longrightarrow>
   interleave channels n r ! k
   = (if k mod 4 < n \<and> k div 4 < length (samples (channels ! (k mod 4)))
      then samples (channels ! (k mod 4)) ! (k div 4) else r ! k)"
proof (induction n)
  case 0
  then show ?case by (simp add: interleave_def)
next
  case (Suc n)
  have step: "interleave channels (Suc n) r
      = fold (\<lambda>j r. r[j * 4 + n := samples (channels ! n) ! j])
          [0..<length (samples (channels ! n))] (interleave channels n r)"
    by (simp add: interleave_def)
  from Suc show ?case
    unfolding step
    by (auto simp add: store_loop_nth interleave_length less_Suc_eq)
qed

lemma interleave_take: "n \<le> 4 \<Longrightarrow> interleave (take 4 channels) n r = interleave channels n r"
  unfolding interleave_def
  by (rule fold_cong) simp_all

lemma set_alpha_one_length: "length (set_alpha_one np r) = length r"
  unfolding set_alpha_one_def by (rule store_loop_length)

lemma set_alpha_one_nth:
  "k < length r \<Longrightarrow>
   set_alpha_one np r ! k = (if k mod 4 = 3 \<and> k div 4 < np then Fin 1 else r ! k)"
  unfolding set_alpha_one_def by (simp add: store_loop_nth)

lemma divide_step_length: "length (divide_step i j r) = length r"
  by (simp add: divide_step_def Let_def)

lemma divide_step_other: "k \<noteq> j * 4 + i \<Longrightarrow> divide_step i j r ! k = r ! k"
  by (simp add: divide_step_def Let_def)

lemma divide_inner_length: "length (fold (divide_step i) [0..<m] r) = length r"
  by (induction m) (simp_all add: divide_step_length)

lemma divide_inner_keeps:
  "i < 4 \<Longrightarrow> k mod 4 \<noteq> i \<Longrightarrow> fold (divide_step i) [0..<m] r ! k = r ! k"
proof (induction m)
  case 0
  then show ?case by simp
next
  case (Suc m)
  then have "k \<noteq> m * 4 + i" by auto
  with Suc show ?case by (simp add: divide_step_other)
qed

lemma divide_outer_keeps:
  "c \<le> 3 \<Longrightarrow> k mod 4 = 3 \<Longrightarrow>
   fold (\<lambda>i. fold (divide_step i) [0..<np]) [0..<c] r ! k = r ! k"
proof (induction c)
  case 0
  then show ?case by simp
next
  case (Suc c)
  then show ?case by (simp add: divide_inner_keeps)
qed

lemma divide_outer_length:
  "length (fold (\<lambda>i. fold (divide_step i) [0..<np]) [0..<c] r) = length r"
  by (induction c) (simp_all add: divide_inner_length)

lemma divide_alpha_length: "length (divide_alpha n np r) = length r"
  by (simp add: divide_alpha_def divide_outer_length)

lemma divide_alpha_keeps_alpha: "k mod 4 = 3 \<Longrightarrow> divide_alpha n np r ! k = r ! k"
  by (simp add: divide_alpha_def divide_outer_keeps)

lemma flatten_length: "length (flatten channels np d) = 4 * np"
  by (simp add: flatten_def Let_def divide_alpha_length set_alpha_one_length interleave_length)

lemma flatten_take: "flatten (take 4 channels) np d = flatten channels np d"
  by (simp add: flatten_def Let_def interleave_take min_def)

lemma flatten_alpha_slot:
  assumes "j < np" "4 \<le> length channels \<Longrightarrow> length (samples (channels ! 3)) = np"
  shows "flatten channels np d ! (j * 4 + 3)
         = (if length channels < 4 then Fin 1 else samples (channels ! 3) ! j)"
proof -
  have k: "j * 4 + 3 < length (replicate (4 * np) (Fin 0 :: cfloat))" using assms(1) by simp
  have m: "(j * 4 + 3) mod 4 = 3" "(j * 4 + 3) div 4 = j" by simp_all
  show ?thesis
    using assms k
    by (simp add: flatten_def Let_def divide_alpha_keeps_alpha m set_alpha_one_nth
        interleave_nth interleave_length min_def)
qed

lemma flatten_plain_slot:
  assumes "j < np" "i < 4" "i < length channels \<Longrightarrow> length (samples (channels ! i)) = np"
  shows "flatten channels np False ! (j * 4 + i)
         = (if i < length channels then samples (channels ! i) ! j
            else if i = 3 then Fin 1 else Fin 0)"
proof -
  have k: "j * 4 + i < length (replicate (4 * np) (Fin 0 :: cfloat))" using assms(1,2) by simp
  have m: "(j * 4 + i) mod 4 = i" "(j * 4 + i) div 4 = j" using assms(2) by simp_all
  show ?thesis
    using assms k
    by (auto simp add: flatten_def Let_def m set_alpha_one_nth
        interleave_nth interleave_length min_def)
qed


lemma divide_step_at:
  "j * 4 + i < length r \<Longrightarrow>
   divide_step i j r ! (j * 4 + i)
   = (if feq (r ! (j * 4 + 3)) (Fin 0) then Fin 0 else fdiv (r ! (j * 4 + i)) (r ! (j * 4 + 3)))"
  by (simp add: divide_step_def Let_def)

lemma divide_inner_nth:
  "i < 3 \<Longrightarrow> k < length r \<Longrightarrow>
   fold (divide_step i) [0..<m] r ! k
   = (if k mod 4 = i \<and> k div 4 < m
      then (if feq (r ! (k div 4 * 4 + 3)) (Fin 0) then Fin 0
            else fdiv (r ! k) (r ! (k div 4 * 4 + 3)))
      else r ! k)"
proof (induction m)
  case 0
  then show ?case by simp
next
  case (Suc m)
  let ?r' = "fold (divide_step i) [0..<m] r"
  have len: "length ?r' = length r" by (rule divide_inner_length)
  show ?case
  proof (cases "k = m * 4 + i")
    case True
    have a: "?r' ! (m * 4 + 3) = r ! (m * 4 + 3)"
      using Suc.prems(1) by (intro divide_inner_keeps) simp_all
    have b: "?r' ! (m * 4 + i) = r ! (m * 4 + i)"
      using Suc.IH [OF Suc.prems] True Suc.prems(1) by simp
    have m: "k mod 4 = i" "k div 4 = m" using True Suc.prems(1) by simp_all
    show ?thesis
      using True Suc.prems len a b m by (simp add: divide_step_at)
  next
    case False
    then have "\<not> (k mod 4 = i \<and> k div 4 = m)" using Suc.prems(1) by auto
    with False Suc show ?thesis by (auto simp add: divide_step_other less_Suc_eq)
  qed
qed

lemma divide_outer_nth:
  "c \<le> 3 \<Longrightarrow> k < length r \<Longrightarrow>
   fold (\<lambda>i. fold (divide_step i) [0..<np]) [0..<c] r ! k
   = (if k mod 4 < c \<and> k div 4 < np
      then (if feq (r ! (k div 4 * 4 + 3)) (Fin 0) then Fin 0
            else fdiv (r ! k) (r ! (k div 4 * 4 + 3)))
      else r ! k)"
proof (induction c)
  case 0
  then show ?case by simp
next
  case (Suc c)
  let ?r' = "fold (\<lambda>i. fold (divide_step i) [0..<np]) [0..<c] r"
  have len: "length ?r' = length r" by (rule divide_outer_length)
  have c: "c \<le> 3" "c < 3" using Suc.prems(1) by simp_all
  have alpha: "?r' ! (k div 4 * 4 + 3) = r ! (k div 4 * 4 + 3)"
    using c(1) by (intro divide_outer_keeps) simp_all
  have IH: "?r' ! k = (if k mod 4 < c \<and> k div 4 < np
      then (if feq (r ! (k div 4 * 4 + 3)) (Fin 0) then Fin 0
            else fdiv (r ! k) (r ! (k div 4 * 4 + 3)))
      else r ! k)"
    using Suc.IH [OF c(1) Suc.prems(2)] .
  have "fold (\<lambda>i. fold (divide_step i) [0..<np]) [0..<Suc c] r ! k
        = fold (divide_step c) [0..<np] ?r' ! k" by simp
  also have "\<dots> = (if k mod 4 = c \<and> k div 4 < np
      then (if feq (?r' ! (k div 4 * 4 + 3)) (Fin 0) then Fin 0
            else fdiv (?r' ! k) (?r' ! (k div 4 * 4 + 3)))
      else ?r' ! k)"
    using c(2) Suc.prems(2) len by (intro divide_inner_nth) simp_all
  finally show ?case
    unfolding alpha IH by (auto simp add: less_Suc_eq)
qed

lemma flatten_divided_slot:
  assumes "j < np" "i < min (length channels) 3" "length (samples (channels ! i)) = np"
  shows "flatten channels np True ! (j * 4 + i)
         = (if feq (flatten channels np True ! (j * 4 + 3)) (Fin 0) then Fin 0
            else fdiv (samples (channels ! i) ! j) (flatten channels np True ! (j * 4 + 3)))"
proof -
  let ?n = "min (length channels) 4"
  let ?r1 = "interleave channels ?n (replicate (4 * np) (Fin 0))"
  let ?r2 = "if ?n < 4 then set_alpha_one np ?r1 else ?r1"
  have fl: "flatten channels np True = divide_alpha ?n np ?r2"
    by (simp add: flatten_def Let_def)
  have len: "length ?r2 = 4 * np"
    by (simp add: set_alpha_one_length interleave_length)
  have k: "j * 4 + i < length ?r2" using assms(1,2) len by simp
  have m: "(j * 4 + i) mod 4 = i" "(j * 4 + i) div 4 = j" using assms(2) by simp_all
  have m3: "(j * 4 + 3) mod 4 = 3" by simp
  have mn: "min ?n 3 = min (length channels) 3" by simp
  have k1: "j * 4 + i < length ?r1" using assms(1,2) by (simp add: interleave_length)
  have v1: "?r1 ! (j * 4 + i) = samples (channels ! i) ! j"
    using assms k by (simp add: interleave_nth m)
  have "set_alpha_one np ?r1 ! (j * 4 + i) = ?r1 ! (j * 4 + i)"
    using set_alpha_one_nth [OF k1, of np] m(1) assms(2) by simp
  with v1 have v: "?r2 ! (j * 4 + i) = samples (channels ! i) ! j"
    by (cases "?n < 4") simp_all
  have a: "divide_alpha ?n np ?r2 ! (j * 4 + 3) = ?r2 ! (j * 4 + 3)"
    using m3 by (rule divide_alpha_keeps_alpha)
  have "divide_alpha ?n np ?r2 ! (j * 4 + i)
        = (if feq (?r2 ! (j * 4 + 3)) (Fin 0) then Fin 0
           else fdiv (?r2 ! (j * 4 + i)) (?r2 ! (j * 4 + 3)))"
    unfolding divide_alpha_def mn
    using divide_outer_nth [of "min (length channels) 3" "j * 4 + i" ?r2 np] k assms(1,2) m
    by simp
  then show ?thesis unfolding fl a v .
qed

lemma fill_xy_length:
  assumes "fill_xy nm sz f = Inr ch"
  shows "length (samples ch) = nat (snd sz) * nat (fst sz)"
proof -
  let ?rs = "concat (map (\<lambda>y. map (\<lambda>x. f (int x, int y)) [0..<nat (fst sz)]) [0..<nat (snd sz)])"
  from assms obtain d where d: "sequence ?rs = Inr d"
    and ch: "ch = \<lparr>name = nm, extent = sz, samples = d\<rparr>"
    by (auto simp add: fill_xy_def bind_err_def split: sum.splits)
  from sequence_Inr [OF d] ch show ?thesis by (simp add: concat_rows_length)
qed

lemma fill_idx_length:
  assumes "fill_idx nm sz n f = Inr ch"
  shows "length (samples ch) = nat (fst sz * snd sz)"
proof -
  from assms have le: "nat n \<le> nat (fst sz * snd sz)"
    by (auto simp add: fill_idx_def Let_def split: if_splits)
  with assms obtain d where d: "sequence (map (\<lambda>j. f (int j)) [0..<nat n]) = Inr d"
    and ch: "ch = \<lparr>name = nm, extent = sz,
                    samples = d @ replicate (nat (fst sz * snd sz) - nat n) (Fin 0)\<rparr>"
    by (auto simp add: fill_idx_def Let_def bind_err_def split: sum.splits if_splits)
  from sequence_Inr [OF d] ch le show ?thesis by simp
qed

lemma compose_reference_length:
  assumes "compose_reference img reference g m pp names onlyAlpha i = Inr ch"
  shows "length (samples ch) = nat (snd (image_size img)) * nat (fst (image_size img))"
proof -
  from assms obtain f where "fill_xy (toUpper (tail (names ! i))) (image_size img) f = Inr ch"
    unfolding compose_reference_def Let_def
    by (cases "channel img (names ! i)"; cases "channel reference (channelsInGroup reference g ! i)")
       (simp_all split: if_splits)
  then show ?thesis by (rule fill_xy_length)
qed

lemma compose_plain_length:
  assumes "compose_plain img pp names i = Inr ch"
  shows "length (samples ch) = nat (fst (image_size img) * snd (image_size img))"
proof -
  from assms obtain n f where "fill_idx (toUpper (tail (names ! i))) (image_size img) n f = Inr ch"
    unfolding compose_plain_def
    by (cases "channel img (names ! i)") simp_all
  then show ?thesis by (rule fill_idx_length)
qed

lemma channelsFromImages_plain:
  assumes "channelsFromImages (Some img) None g m pp = Inr chans"
  shows "length chans = length (channelsInGroup img g)"
    and "i < length chans \<Longrightarrow>
         compose_plain img pp (channelsInGroup img g) i = Inr (chans ! i)"
proof -
  let ?names = "channelsInGroup img g"
  let ?rs = "map (compose_plain img pp ?names) [0..<length ?names]"
  from assms have s: "sequence ?rs = Inr chans"
    by (simp add: channelsFromImages_def Let_def)
  from sequence_Inr [OF s] show len: "length chans = length ?names" by simp
  assume i: "i < length chans"
  from sequence_Inr [OF s] have "\<forall>k<length ?rs. ?rs ! k = Inr (chans ! k)" by blast
  then have "?rs ! i = Inr (chans ! i)" using i len by simp
  then show "compose_plain img pp ?names i = Inr (chans ! i)"
    using i len by simp
qed

lemma composite_channel_length:
  assumes "channelsFromImages (Some img) reference_opt g m pp = Inr chans"
    and "0 \<le> fst (image_size img)" "0 \<le> snd (image_size img)" "i < length chans"
  shows "length (samples (chans ! i)) = nat (image_count img)"
proof (cases reference_opt)
  case None
  with assms(1,4) have "compose_plain img pp (channelsInGroup img g) i = Inr (chans ! i)"
    by (simp add: channelsFromImages_plain(2))
  then show ?thesis by (simp add: compose_plain_length image_count_def)
next
  case (Some reference)
  with assms(1,4) have "compose_reference img reference g m pp (channelsInGroup img g)
      (list_all (\<lambda>n. toUpper (tail n) = ''A'') (channelsInGroup img g)) i = Inr (chans ! i)"
    by (simp add: channelsFromImages_reference(2))
  then have "length (samples (chans ! i)) = nat (snd (image_size img)) * nat (fst (image_size img))"
    by (rule compose_reference_length)
  then show ?thesis using assms(2,3) by (simp add: image_count_def nat_mult_distrib mult.commute)
qed

lemma blank_composite:
  "channelsFromImages (mImage blank_canvas) (mReference blank_canvas)
     (mRequestedChannelGroup blank_canvas) (mMetric blank_canvas) (mPostProcessing blank_canvas)
   = Inr []"
  by code_simp

lemma gray_composite:
  "channelsFromImages (mImage gray_canvas) (mReference gray_canvas)
     (mRequestedChannelGroup gray_canvas) (mMetric gray_canvas) (mPostProcessing gray_canvas)
   = Inr [gray_channel]"
  by code_simp

lemma five_canvas_composite:
  "channelsFromImages (mImage five_canvas) (mReference five_canvas)
     (mRequestedChannelGroup five_canvas) (mMetric five_canvas) (mPostProcessing five_canvas)
   = Inr five_composite"
  by code_simp

text \<open>
  C10 (as amended). For a non-empty composite the export returns a buffer of four floats
  per pixel that depends on the first four composite channels only; the alpha slot of
  every pixel is 1 if there are fewer than four channels and is the sample of the fourth
  channel otherwise, whatever that channel's name; without alpha division, slot \<open>i\<close> of
  pixel \<open>j\<close> is the sample of channel \<open>i\<close> for the exported channels and 0 for a missing
  colour channel; with alpha division, each of the first three exported channels is
  divided by the pixel's alpha slot (0 where that is 0). For an empty composite the
  export returns the empty buffer.
\<close>

theorem getHdrImageData_layout:
  assumes "mImage c = Some img"
    and "0 \<le> fst (image_size img)" "0 \<le> snd (image_size img)"
    and "channelsFromImages (mImage c) (mReference c) (mRequestedChannelGroup c) (mMetric c)
           (mPostProcessing c) = Inr channels"
  shows "(channels = [] \<longrightarrow> getHdrImageData c divideAlpha = Inr [])
    \<and> (channels \<noteq> [] \<longrightarrow>
         getHdrImageData c divideAlpha
           = Inr (flatten channels (nat (image_count img)) divideAlpha)
         \<and> flatten channels (nat (image_count img)) divideAlpha
           = flatten (take 4 channels) (nat (image_count img)) divideAlpha
         \<and> length (flatten channels (nat (image_count img)) divideAlpha)
           = 4 * nat (image_count img)
         \<and> (\<forall>j<nat (image_count img).
              flatten channels (nat (image_count img)) divideAlpha ! (j * 4 + 3)
                = (if length channels < 4 then Fin 1 else samples (channels ! 3) ! j)
              \<and> (\<forall>i<4. flatten channels (nat (image_count img)) False ! (j * 4 + i)
                    = (if i < length channels then samples (channels ! i) ! j
                       else if i = 3 then Fin 1 else Fin 0))
              \<and> (\<forall>i<min (length channels) 3.
                    flatten channels (nat (image_count img)) True ! (j * 4 + i)
                    = (if feq (flatten channels (nat (image_count img)) True ! (j * 4 + 3)) (Fin 0)
                       then Fin 0
                       else fdiv (samples (channels ! i) ! j)
                              (flatten channels (nat (image_count img)) True ! (j * 4 + 3))))))"
proof -
  let ?np = "nat (image_count img)"
  have len: "\<And>i. i < length channels \<Longrightarrow> length (samples (channels ! i)) = ?np"
    using assms by (simp add: composite_channel_length)
  have run: "getHdrImageData c divideAlpha
      = (if channels = [] then Inr [] else Inr (flatten channels ?np divideAlpha))"
    using assms(1,4) by (simp add: getHdrImageData_def bind_err_def)
  have alpha: "\<And>j. j < ?np \<Longrightarrow> flatten channels ?np divideAlpha ! (j * 4 + 3)
                = (if length channels < 4 then Fin 1 else samples (channels ! 3) ! j)"
    by (rule flatten_alpha_slot) (simp_all add: len)
  have plain: "\<And>j i. j < ?np \<Longrightarrow> i < 4 \<Longrightarrow> flatten channels ?np False ! (j * 4 + i)
                    = (if i < length channels then samples (channels ! i) ! j
                       else if i = 3 then Fin 1 else Fin 0)"
    by (rule flatten_plain_slot) (simp_all add: len)
  have divided: "\<And>j i. j < ?np \<Longrightarrow> i < min (length channels) 3 \<Longrightarrow>
       flatten channels ?np True ! (j * 4 + i)
         = (if feq (flatten channels ?np True ! (j * 4 + 3)) (Fin 0) then Fin 0
            else fdiv (samples (channels ! i) ! j) (flatten channels ?np True ! (j * 4 + 3)))"
    by (rule flatten_divided_slot) (simp_all add: len)
  show ?thesis
    using run alpha plain divided
    by (simp add: flatten_take flatten_length)
qed

theorem getHdrImageData_layout_witness:
  "getHdrImageData blank_canvas False = Inr []
   \<and> getHdrImageData gray_canvas False = Inr (flatten [gray_channel] 4 False)
   \<and> flatten [gray_channel] 4 False ! 15 = Fin 1
   \<and> flatten [gray_channel] 4 False ! 8 = Fin 3
   \<and> getHdrImageData five_canvas True = Inr (flatten five_composite 1 True)
   \<and> flatten five_composite 1 True = flatten (take 4 five_composite) 1 True
   \<and> flatten five_composite 1 True ! 3 = Fin 4
   \<and> flatten five_composite 1 True ! 2 = Fin (3 / 4)"
proof -
  have sz: "0 \<le> fst (image_size blank_image)" "0 \<le> snd (image_size blank_image)"
    "0 \<le> fst (image_size gray_image)" "0 \<le> snd (image_size gray_image)"
    "0 \<le> fst (image_size five_image)" "0 \<le> snd (image_size five_image)"
    by (simp_all add: blank_image_def gray_image_def five_image_def)
  have im: "mImage blank_canvas = Some blank_image" "mImage gray_canvas = Some gray_image"
    "mImage five_canvas = Some five_image"
    by (simp_all add: blank_canvas_def gray_canvas_def five_canvas_def)
  have np: "nat (image_count gray_image) = 4" "nat (image_count five_image) = 1"
    by (simp_all add: image_count_def gray_image_def five_image_def)
  have n: "length five_composite = 5" "five_composite \<noteq> []"
    "samples (five_composite ! 3) ! 0 = Fin 4" "samples (five_composite ! 2) ! 0 = Fin 3"
    "samples ([gray_channel] ! 0) ! 2 = Fin 3" "[gray_channel] \<noteq> []"
    by (simp_all add: five_composite_def gray_channel_def)
  have idx: "(3::nat) < nat (image_count gray_image)" "(2::nat) < nat (image_count gray_image)"
    "(0::nat) < nat (image_count five_image)" "(0::nat) < 4"
    "(2::nat) < min (length five_composite) 3"
    by (simp_all add: np n)
  note blank = getHdrImageData_layout [OF im(1) sz(1,2) blank_composite, of False]
  note gray = getHdrImageData_layout [OF im(2) sz(3,4) gray_composite, of False]
  note five = getHdrImageData_layout [OF im(3) sz(5,6) five_canvas_composite, of True]
  from blank have a: "getHdrImageData blank_canvas False = Inr []" by blast
  from gray n(6) have b1: "getHdrImageData gray_canvas False
      = Inr (flatten [gray_channel] (nat (image_count gray_image)) False)" by blast
  from gray n(6) idx(1) have b2: "flatten [gray_channel] (nat (image_count gray_image)) False ! (3 * 4 + 3)
      = (if length [gray_channel] < 4 then Fin 1 else samples ([gray_channel] ! 3) ! 3)" by blast
  from gray n(6) idx(2,4) have b3: "flatten [gray_channel] (nat (image_count gray_image)) False ! (2 * 4 + 0)
      = (if 0 < length [gray_channel] then samples ([gray_channel] ! 0) ! 2
         else if (0::nat) = 3 then Fin 1 else Fin 0)" by blast
  from five n(2) have c1: "getHdrImageData five_canvas True
      = Inr (flatten five_composite (nat (image_count five_image)) True)"
    and c2: "flatten five_composite (nat (image_count five_image)) True
      = flatten (take 4 five_composite) (nat (image_count five_image)) True" by blast+
  from five n(2) idx(3) have c3: "flatten five_composite (nat (image_count five_image)) True ! (0 * 4 + 3)
      = (if length five_composite < 4 then Fin 1 else samples (five_composite ! 3) ! 0)" by blast
  from five n(2) idx(3,5) have c4: "flatten five_composite (nat (image_count five_image)) True ! (0 * 4 + 2)
      = (if feq (flatten five_composite (nat (image_count five_image)) True ! (0 * 4 + 3)) (Fin 0)
         then Fin 0
         else fdiv (samples (five_composite ! 2) ! 0)
                (flatten five_composite (nat (image_count five_image)) True ! (0 * 4 + 3)))" by blast
  have c3': "flatten five_composite 1 True ! 3 = Fin 4"
    using c3 by (simp add: np n)
  have "flatten five_composite 1 True ! 2
        = flatten five_composite (nat (image_count five_image)) True ! (0 * 4 + 2)"
    by (simp add: np numeral_2_eq_2)
  also note c4
  also have "(if feq (flatten five_composite (nat (image_count five_image)) True ! (0 * 4 + 3)) (Fin 0)
         then Fin 0
         else fdiv (samples (five_composite ! 2) ! 0)
                (flatten five_composite (nat (image_count five_image)) True ! (0 * 4 + 3)))
        = Fin (3 / 4)"
    unfolding c3 n(3) n(4) by (simp add: n(1) feq_def)
  finally have c4': "flatten five_composite 1 True ! 2 = Fin (3 / 4)" .
  have gs: "samples gray_channel ! 2 = Fin 3" by (simp add: gray_channel_def)
  show ?thesis
    using a b1 b2 b3 c1 c2 c3' c4' gs by (simp add: np n)
qed

text \<open>
  C10 as stated fails for an empty composite: the image has one pixel and fewer than four
  channels are exported, but the export returns the empty buffer instead of four floats
  with the alpha slot set to 1.
\<close>

theorem getHdrImageData_of_empty_composite:
  "image_count blank_image = 1
   \<and> channelsFromImages (Some blank_image) None [] Error Identity = Inr []
   \<and> getHdrImageData blank_canvas False = Inr []"
  by (simp add: image_count_def blank_image_def getHdrImageData_def blank_canvas_def
      gray_canvas_def channelsFromImages_def bind_err_def)


subsection \<open>Statistics engine\<close>

lemma fold_concat_rows: "fold f (concat xss) acc = fold (fold f) xss acc"
  by (induction xss arbitrary: acc) simp_all

lemma accumulate_visited:
  "accumulate flattened n js
   = fold accumulate_sample (visited_samples flattened n js) (Fin 0, NInf, PInf, 0)"
  by (simp add: accumulate_def visited_samples_def fold_concat_rows fold_map comp_def)

lemma fold_accumulate_NaN:
  "list_all isnan vs \<Longrightarrow> fold accumulate_sample vs acc = acc"
  by (induction vs arbitrary: acc) (simp_all add: accumulate_sample_def split: prod.splits)

lemma statistics_of_fields:
  "mean (statistics_of ub img fl isC cmin cmax)
     = (if nChannels_of fl > 0
        then fdiv (fst (accumulators img fl isC cmin cmax))
               (i2f (snd (snd (snd (accumulators img fl isC cmin cmax)))))
        else Fin 0)"
  "maximum (statistics_of ub img fl isC cmin cmax) = fst (snd (accumulators img fl isC cmin cmax))"
  "minimum (statistics_of ub img fl isC cmin cmax)
     = fst (snd (snd (accumulators img fl isC cmin cmax)))"
  by (simp_all add: statistics_of_def Let_def)

lemma gray_plain_composite:
  "channelsFromImages (Some gray_image) None [] Error Identity = Inr [gray_channel]"
  by code_simp

lemma gray_nChannels: "nChannels_of [gray_channel] = 1"
  by code_simp

lemma gray_located: "locate_alpha [gray_channel] = ([gray_channel], None)"
  by code_simp

text \<open>
  C9. If there is at least one data channel and every sample that the loops over the
  resolved crop rectangle read is NaN (in particular if the rectangle is empty), the
  computation returns a statistics value whose mean is NaN (\<open>0 / 0\<close>), whose minimum is
  still \<open>+\<infinity>\<close> and whose maximum is still \<open>-\<infinity>\<close>.
\<close>

theorem statistics_without_valid_sample:
  assumes "channelsFromImages (Some img) reference_opt g m pp = Inr flattened0"
    and "0 < nChannels_of flattened0"
    and "list_all isnan
           (visited_samples (fst (locate_alpha flattened0)) (nChannels_of flattened0)
              (crop_of img isCropped cropMin cropMax))"
  shows "computeCanvasStatistics ub (Some img) reference_opt g m pp isCropped cropMin cropMax
           = Inr (statistics_of ub img flattened0 isCropped cropMin cropMax)
     \<and> mean (statistics_of ub img flattened0 isCropped cropMin cropMax) = NaN
     \<and> minimum (statistics_of ub img flattened0 isCropped cropMin cropMax) = PInf
     \<and> maximum (statistics_of ub img flattened0 isCropped cropMin cropMax) = NInf"
proof -
  have acc: "accumulators img flattened0 isCropped cropMin cropMax = (Fin 0, NInf, PInf, 0)"
    using assms(3) by (simp add: accumulators_def accumulate_visited fold_accumulate_NaN)
  have run: "computeCanvasStatistics ub (Some img) reference_opt g m pp isCropped cropMin cropMax
           = Inr (statistics_of ub img flattened0 isCropped cropMin cropMax)"
    using assms(1) by (simp add: computeCanvasStatistics_def bind_err_def)
  show ?thesis
    using run assms(2) by (simp add: statistics_of_fields acc i2f_def)
qed

theorem statistics_without_valid_sample_witness:
  "channelsFromImages (Some gray_image) None [] Error Identity = Inr [gray_channel]
   \<and> 0 < nChannels_of [gray_channel]
   \<and> visited_samples (fst (locate_alpha [gray_channel])) (nChannels_of [gray_channel])
        (crop_of gray_image True (1, 1) (2, 2)) = [NaN]
   \<and> computeCanvasStatistics (- 2147483648) (Some gray_image) None [] Error Identity True
        (1, 1) (2, 2)
       = Inr (statistics_of (- 2147483648) gray_image [gray_channel] True (1, 1) (2, 2))
   \<and> mean (statistics_of (- 2147483648) gray_image [gray_channel] True (1, 1) (2, 2)) = NaN
   \<and> minimum (statistics_of (- 2147483648) gray_image [gray_channel] True (1, 1) (2, 2)) = PInf
   \<and> maximum (statistics_of (- 2147483648) gray_image [gray_channel] True (1, 1) (2, 2)) = NInf"
proof -
  have n: "0 < nChannels_of [gray_channel]" by (simp add: gray_nChannels)
  have v: "visited_samples (fst (locate_alpha [gray_channel])) (nChannels_of [gray_channel])
        (crop_of gray_image True (1, 1) (2, 2)) = [NaN]"
    by code_simp
  have a: "list_all isnan
        (visited_samples (fst (locate_alpha [gray_channel])) (nChannels_of [gray_channel])
           (crop_of gray_image True (1, 1) (2, 2)))"
    unfolding v by (simp add: isnan_def)
  from statistics_without_valid_sample [OF gray_plain_composite n a, of "- 2147483648"]
  show ?thesis using gray_plain_composite n v by simp
qed


subsection \<open>Histogram\<close>

lemma fadd_commute: "fadd a b = fadd b a"
  by (cases a; cases b) simp_all

lemma fadd_assoc: "fadd (fadd a b) c = fadd a (fadd b c)"
  by (cases a; cases b; cases c) simp_all

lemma fadd_zero: "fadd (Fin 0) a = a"
  by (cases a) simp_all

lemma column_total_update:
  "b < length col \<Longrightarrow>
   column_total (col[b := fadd (col ! b) w]) = fadd (column_total col) w"
proof (induction col arbitrary: b)
  case Nil
  then show ?case by simp
next
  case (Cons x xs)
  show ?case
  proof (cases b)
    case 0
    have "fadd (fadd x w) (column_total xs) = fadd (fadd x (column_total xs)) w"
      by (metis fadd_assoc fadd_commute)
    with 0 show ?thesis by (simp add: column_total_def)
  next
    case (Suc b')
    with Cons.prems have "b' < length xs" by simp
    from Cons.IH [OF this] Suc show ?thesis
      by (simp add: column_total_def fadd_assoc)
  qed
qed

lemma add_to_bins_prefix:
  "list_all (\<lambda>b. b < length col) idx \<Longrightarrow> m \<le> length idx \<Longrightarrow>
   length (fold (\<lambda>j c. c[idx ! j := fadd (c ! (idx ! j)) (weight j)]) [0..<m] col) = length col
   \<and> column_total (fold (\<lambda>j c. c[idx ! j := fadd (c ! (idx ! j)) (weight j)]) [0..<m] col)
       = fold (\<lambda>j s. fadd s (weight j)) [0..<m] (column_total col)"
proof (induction m)
  case 0
  then show ?case by simp
next
  case (Suc m)
  then have b: "idx ! m < length col" by (simp add: list_all_length)
  from Suc show ?case using b by (simp add: column_total_update)
qed

lemma fold_fadd_shift:
  "fold (\<lambda>j s. fadd s (weight j)) js (fadd a b) = fadd a (fold (\<lambda>j s. fadd s (weight j)) js b)"
  by (induction js arbitrary: b) (simp_all add: fadd_assoc)

lemma add_to_bins_total:
  assumes "list_all (\<lambda>b. b < length col) idx"
  shows "column_total (add_to_bins idx weight col)
         = fadd (column_total col) (total_weight weight (length idx))"
proof -
  have "column_total (add_to_bins idx weight col)
        = fold (\<lambda>j s. fadd s (weight j)) [0..<length idx] (column_total col)"
    using add_to_bins_prefix [OF assms, of "length idx" weight] by (simp add: add_to_bins_def)
  also have "\<dots> = fold (\<lambda>j s. fadd s (weight j)) [0..<length idx] (fadd (column_total col) (Fin 0))"
    by (simp add: fadd_commute [of _ "Fin 0"] fadd_zero)
  also have "\<dots> = fadd (column_total col) (total_weight weight (length idx))"
    by (simp add: fold_fadd_shift total_weight_def)
  finally show ?thesis .
qed

lemma valToBin_range: "0 \<le> valToBin ub minLog diffLog v \<and> valToBin ub minLog diffLog v \<le> 399"
  by (simp add: valToBin_def clampi_def NUM_BINS_def)

lemma valToBin_nat: "nat (valToBin ub minLog diffLog v) < 400"
  using valToBin_range [of ub minLog diffLog v] by linarith

lemma bin_indices_range:
  "list_all (\<lambda>b. b < 400) (bin_indices ub minLog diffLog chan n)"
  by (simp add: bin_indices_def list_all_iff valToBin_nat)

lemma column_total_zero: "column_total (replicate n (Fin 0)) = Fin 0"
  by (induction n) (simp_all add: column_total_def)

lemma histogram_counts_total:
  assumes "i < nChannels"
  shows "column_total (histogram_counts ub flattened alphaChannel nChannels numElements
                         minLog diffLog ! i)
         = total_weight (pixel_weight flattened alphaChannel) numElements"
proof -
  have r: "list_all (\<lambda>b. b < length (replicate (nat NUM_BINS) (Fin 0 :: cfloat)))
            (bin_indices ub minLog diffLog (flattened ! i) numElements)"
    using bin_indices_range [of ub minLog diffLog "flattened ! i" numElements]
    by (simp add: NUM_BINS_def)
  have l: "length (bin_indices ub minLog diffLog (flattened ! i) numElements) = numElements"
    by (simp add: bin_indices_def)
  show ?thesis
    using assms add_to_bins_total [OF r, of "pixel_weight flattened alphaChannel"]
    by (simp add: histogram_counts_def l column_total_zero fadd_zero)
qed

lemma raw_histogram_total:
  assumes "i < nChannels_of flattened0"
  shows "column_total (raw_histogram ub img flattened0 isCropped cropMin cropMax ! i)
         = total_weight (pixel_weight (fst (locate_alpha flattened0)) (snd (locate_alpha flattened0)))
             (nat (image_count img))"
  using assms by (simp add: raw_histogram_def Let_def histogram_counts_total)

lemma symmetricLog_NaN: "symmetricLog NaN = NaN"
  by (simp add: symmetricLog_def fsub_def)

lemma valToBin_NaN: "valToBin ub minLog diffLog NaN = clampi ub 0 399"
  by (simp add: valToBin_def symmetricLog_NaN fsub_def f2i_def i2f_def NUM_BINS_def)

lemma accumulate_sample_NaN: "accumulate_sample NaN acc = acc"
  by (simp add: accumulate_sample_def isnan_def split: prod.splits)

lemma fold_accumulate_skips_NaN:
  "fold accumulate_sample vs acc = fold accumulate_sample (filter (\<lambda>v. \<not> isnan v) vs) acc"
  by (induction vs arbitrary: acc) (simp_all add: accumulate_sample_NaN isnan_def)

lemma gray_accumulators:
  "accumulators gray_image [gray_channel] False (0, 0) (0, 0) = (Fin 6, Fin 3, Fin 1, 3)"
  by code_simp

lemma gray_total_weight:
  "total_weight (pixel_weight (fst (locate_alpha [gray_channel])) (snd (locate_alpha [gray_channel])))
     (nat (image_count gray_image)) = Fin 4"
  by code_simp

text \<open>
  C4 (code defect). A NaN sample is to contribute to none of mean, minimum, maximum and
  pixel count, and to no histogram bin. The loop for mean, minimum and maximum skips it
  (\<open>accumulate_sample_NaN\<close>), but the histogram loops have no such test: \<^verbatim>\<open>valToBin\<close> of
  a NaN converts a NaN to \<^verbatim>\<open>int\<close> and clamps the result, and the weight of the pixel is
  added to that bin. For the 2 x 2 image with samples 1, 2, 3, NaN (metric Error, no
  reference, Identity, no crop) the mean is 2, the minimum 1 and the maximum 3 as
  described, but the NaN sample is given the bin \<open>clamp(ub, 0, 399)\<close> and the histogram
  column sums to 4, not to 3.
\<close>

theorem gray_statistics_bin_the_NaN:
  "computeCanvasStatistics ub (Some gray_image) None [] Error Identity False (0, 0) (0, 0)
     = Inr (statistics_of ub gray_image [gray_channel] False (0, 0) (0, 0))
   \<and> mean (statistics_of ub gray_image [gray_channel] False (0, 0) (0, 0)) = Fin 2
   \<and> minimum (statistics_of ub gray_image [gray_channel] False (0, 0) (0, 0)) = Fin 1
   \<and> maximum (statistics_of ub gray_image [gray_channel] False (0, 0) (0, 0)) = Fin 3
   \<and> eval_idx gray_channel 3 = NaN
   \<and> bin_indices ub minLog diffLog gray_channel 4 ! 3 = nat (clampi ub 0 399)
   \<and> column_total (raw_histogram ub gray_image [gray_channel] False (0, 0) (0, 0) ! 0) = Fin 4"
proof -
  have run: "computeCanvasStatistics ub (Some gray_image) None [] Error Identity False (0, 0) (0, 0)
     = Inr (statistics_of ub gray_image [gray_channel] False (0, 0) (0, 0))"
    by (simp add: computeCanvasStatistics_def gray_plain_composite bind_err_def)
  have st: "mean (statistics_of ub gray_image [gray_channel] False (0, 0) (0, 0)) = Fin 2"
    "minimum (statistics_of ub gray_image [gray_channel] False (0, 0) (0, 0)) = Fin 1"
    "maximum (statistics_of ub gray_image [gray_channel] False (0, 0) (0, 0)) = Fin 3"
    by (simp_all add: statistics_of_fields gray_accumulators gray_nChannels i2f_def)
  have v: "eval_idx gray_channel 3 = NaN"
    by (simp add: eval_idx_def channel_count_def gray_channel_def)
  have b: "bin_indices ub minLog diffLog gray_channel 4 ! 3 = nat (clampi ub 0 399)"
    using v by (simp add: bin_indices_def valToBin_NaN)
  have t: "column_total (raw_histogram ub gray_image [gray_channel] False (0, 0) (0, 0) ! 0) = Fin 4"
    by (simp add: raw_histogram_total gray_nChannels gray_total_weight)
  from run st v b t show ?thesis by simp
qed

lemma wide_plain_composite:
  "channelsFromImages (Some wide_image) None [] Error Identity = Inr [wide_channel]"
  by code_simp

lemma wide_nChannels: "nChannels_of [wide_channel] = 1"
  by code_simp

lemma wide_crop: "crop_of wide_image True (0, 0) (2, 1) = [0, 1]"
  by code_simp

lemma wide_accumulators:
  "accumulators wide_image [wide_channel] True (0, 0) (2, 1) = (Fin 3, Fin 2, Fin 1, 2)"
  by code_simp

lemma wide_total_weight:
  "total_weight (pixel_weight (fst (locate_alpha [wide_channel])) (snd (locate_alpha [wide_channel])))
     (nat (image_count wide_image)) = Fin 3"
  by code_simp

lemma symmetricLog_pos:
  "0 < a \<Longrightarrow> symmetricLog (Fin a) = Fin (ln (a + 0.001) - ln 0.001)"
  by (simp add: symmetricLog_def addition_def smallest_def fsub_def)

lemma ln_lower: "0 < x \<Longrightarrow> 1 - 1 / x \<le> ln (x::real)"
proof -
  assume x: "0 < x"
  then have "ln (1 / x) \<le> 1 / x - 1" by (intro ln_le_minus_one) simp
  then show ?thesis using x by (simp add: ln_div)
qed

lemma wide_ratio:
  defines "A \<equiv> ln (5.001::real) - ln 1.001" and "D \<equiv> ln (2.001::real) - ln 1.001"
  shows "0 < D" "400 \<le> 400 * A / D" "400 * A / D < 2147483648"
proof -
  have D1: "D = ln (2.001 / 1.001)" by (simp add: D_def ln_div)
  have A1: "A = ln (5.001 / 1.001)" by (simp add: A_def ln_div)
  have "1 - 1 / (2.001 / 1.001) \<le> ln (2.001 / 1.001 :: real)" by (rule ln_lower) simp
  then have Dlow: "(0.4 :: real) \<le> D" unfolding D1 by simp
  then show Dpos: "0 < D" by simp
  have "ln (5.001 / 1.001 :: real) \<le> 5.001 / 1.001 - 1" by (rule ln_le_minus_one) simp
  then have Aup: "A \<le> 4" unfolding A1 by simp
  have "ln (2.001 / 1.001 :: real) \<le> ln (5.001 / 1.001)" by simp
  then have DA: "D \<le> A" unfolding A1 D1 .
  from DA Dpos show "400 \<le> 400 * A / D" by (simp add: le_divide_eq)
  have "400 * A / D \<le> 400 * 4 / 0.4"
    using Aup Dlow Dpos DA by (intro frac_le) simp_all
  then show "400 * A / D < 2147483648" by simp
qed

lemma wide_bin:
  "valToBin ub (symmetricLog (Fin 1)) (fsub (symmetricLog (Fin 2)) (symmetricLog (Fin 1))) (Fin 5) = 399"
proof -
  let ?A = "ln (5.001::real) - ln 1.001" and ?D = "ln (2.001::real) - ln 1.001"
  note r = wide_ratio
  have q: "fdiv (fmul (i2f NUM_BINS) (fsub (symmetricLog (Fin 5)) (symmetricLog (Fin 1))))
             (fsub (symmetricLog (Fin 2)) (symmetricLog (Fin 1)))
           = Fin (400 * ?A / ?D)"
    using r(1) by (simp add: symmetricLog_pos fsub_def i2f_def NUM_BINS_def)
  have "f2i ub (Fin (400 * ?A / ?D)) = \<lfloor>400 * ?A / ?D\<rfloor>"
    using r(2,3) by (simp add: f2i_def)
  moreover have "400 \<le> \<lfloor>400 * ?A / ?D\<rfloor>" using r(2) by (simp add: le_floor_iff)
  ultimately show ?thesis
    unfolding valToBin_def q by (simp add: clampi_def NUM_BINS_def)
qed


lemma wide_bin_min:
  "valToBin ub (symmetricLog (Fin 1)) (fsub (symmetricLog (Fin 2)) (symmetricLog (Fin 1))) (Fin 1) = 0"
  using wide_ratio(1)
  by (simp add: valToBin_def symmetricLog_pos fsub_def i2f_def NUM_BINS_def f2i_def clampi_def)

lemma fdiv_scaled_self: "d \<noteq> 0 \<Longrightarrow> fdiv (fmul (i2f NUM_BINS) (Fin d)) (Fin d) = Fin 400"
  by (simp add: i2f_def NUM_BINS_def)

lemma wide_bin_max:
  "valToBin ub (symmetricLog (Fin 1)) (fsub (symmetricLog (Fin 2)) (symmetricLog (Fin 1))) (Fin 2) = 399"
proof -
  let ?m = "ln (1 + 0.001 :: real) - ln 0.001" and ?M = "ln (2 + 0.001 :: real) - ln 0.001"
  have s: "symmetricLog (Fin 1) = Fin ?m" "symmetricLog (Fin 2) = Fin ?M"
    by (simp_all only: symmetricLog_pos zero_less_one zero_less_numeral)
  have d: "fsub (Fin ?M) (Fin ?m) = Fin (?M - ?m)" by (simp add: fsub_def)
  have nz: "?M - ?m \<noteq> 0" using wide_ratio(1) by simp
  show ?thesis
    unfolding valToBin_def s d fdiv_scaled_self [OF nz]
    by (simp add: f2i_def clampi_def NUM_BINS_def)
qed

lemma pixel_weight_None: "pixel_weight flattened None = (\<lambda>j. Fin 1)"
  by (rule ext) (simp add: pixel_weight_def)

lemma wide_samples:
  "eval_idx wide_channel 0 = Fin 1" "eval_idx wide_channel 1 = Fin 2" "eval_idx wide_channel 2 = Fin 5"
  by (simp_all add: eval_idx_def channel_count_def wide_channel_def)

lemma upt_3: "[0..<3] = [0, 1, 2]"
  by (simp add: upt_rec [of 0] upt_rec [of "Suc 0"] upt_rec [of 1] upt_rec[of 2] numeral_3_eq_3)

lemma wide_bin_indices:
  "bin_indices ub (symmetricLog (Fin 1)) (fsub (symmetricLog (Fin 2)) (symmetricLog (Fin 1)))
     wide_channel 3 = [0, 399, 399]"
  by (simp add: bin_indices_def upt_3 wide_samples wide_bin wide_bin_min wide_bin_max)

lemma wide_located: "locate_alpha [wide_channel] = ([wide_channel], None)"
  by code_simp

lemma wide_count: "nat (image_count wide_image) = 3"
  by (simp add: image_count_def wide_image_def)

lemma wide_raw_histogram:
  "raw_histogram ub wide_image [wide_channel] True (0, 0) (2, 1)
   = [add_to_bins [0, 399, 399] (\<lambda>j. Fin 1) (replicate 400 (Fin 0))]"
  by (simp add: raw_histogram_def Let_def wide_accumulators wide_located wide_nChannels
      wide_count histogram_counts_def wide_bin_indices pixel_weight_None NUM_BINS_def)

lemma wide_column:
  "add_to_bins [0, 399, 399] (\<lambda>j. Fin 1) (replicate 400 (Fin 0)) ! 399 = Fin 2"
  "add_to_bins [0, 399, 399] (\<lambda>j. Fin 1) (replicate 400 (Fin 0)) ! 0 = Fin 1"
  by (simp_all add: add_to_bins_def upt_3)

text \<open>
  C1 (code defect). The histogram is to accumulate the pixels of the resolved crop
  rectangle only. The histogram loops run over all \<^verbatim>\<open>image->count()\<close> pixels, so the sum
  of a column over all bins is the total weight of all pixels of the image, whatever the
  crop (\<open>raw_histogram_total\<close>). For the 3 x 1 image with samples 1, 2, 5 and the crop
  rectangle covering the first two pixels, the loop for the mean visits the two flat
  indices 0 and 1 and counts two samples (minimum 1, maximum 2), while all three pixels
  are given a bin (0, 399 and 399): the pixel outside the rectangle is added to bin 399,
  which then holds 2, and the histogram column sums to 3.
\<close>

theorem cropped_histogram_counts_whole_image:
  "computeCanvasStatistics ub (Some wide_image) None [] Error Identity True (0, 0) (2, 1)
     = Inr (statistics_of ub wide_image [wide_channel] True (0, 0) (2, 1))
   \<and> crop_of wide_image True (0, 0) (2, 1) = [0, 1]
   \<and> accumulators wide_image [wide_channel] True (0, 0) (2, 1) = (Fin 3, Fin 2, Fin 1, 2)
   \<and> bin_indices ub (symmetricLog (Fin 1)) (fsub (symmetricLog (Fin 2)) (symmetricLog (Fin 1)))
        wide_channel 3 = [0, 399, 399]
   \<and> raw_histogram ub wide_image [wide_channel] True (0, 0) (2, 1) ! 0 ! 399 = Fin 2
   \<and> raw_histogram ub wide_image [wide_channel] True (0, 0) (2, 1) ! 0 ! 0 = Fin 1
   \<and> column_total (raw_histogram ub wide_image [wide_channel] True (0, 0) (2, 1) ! 0) = Fin 3"
proof -
  have run: "computeCanvasStatistics ub (Some wide_image) None [] Error Identity True (0, 0) (2, 1)
     = Inr (statistics_of ub wide_image [wide_channel] True (0, 0) (2, 1))"
    by (simp add: computeCanvasStatistics_def wide_plain_composite bind_err_def)
  have t: "column_total (raw_histogram ub wide_image [wide_channel] True (0, 0) (2, 1) ! 0) = Fin 3"
    by (simp add: raw_histogram_total wide_nChannels wide_total_weight)
  have h: "raw_histogram ub wide_image [wide_channel] True (0, 0) (2, 1) ! 0 ! 399 = Fin 2"
    "raw_histogram ub wide_image [wide_channel] True (0, 0) (2, 1) ! 0 ! 0 = Fin 1"
    by (simp_all add: wide_raw_histogram wide_column)
  from run wide_crop wide_accumulators wide_bin_indices h t show ?thesis by simp
qed

end
